theory Spec2Isabelle
  imports Complex_Main "HOL-Library.Log_Nat"
begin

section \<open>JavaScript values\<close>

subsection \<open>Strings\<close>

text \<open>
  A JavaScript string is a sequence of UTF-16 code units. String literals of the source are
  written with \<open>str\<close> for their ASCII runs and with explicit code units for the Spanish
  letters: 161 is the inverted exclamation mark, 191 the inverted question mark, 225, 233,
  237, 243 and 250 the vowels a, e, i, o, u with an acute accent, 241 the n with a tilde.
  A value that may be \<open>undefined\<close> is a \<open>jsstring option\<close>.
\<close>

type_synonym jsstring = "nat list"

definition str :: "string \<Rightarrow> jsstring" where
  "str s = map (of_char :: char \<Rightarrow> nat) s"

text \<open>
  \<open>String.prototype.trim\<close> strips the code units of ECMAScript's WhiteSpace and
  LineTerminator productions from both ends.
\<close>

definition isWhiteSpace :: "nat \<Rightarrow> bool" where
  "isWhiteSpace c \<longleftrightarrow>
     c \<in> set [9, 10, 11, 12, 13, 32, 160, 5760, 8232, 8233, 8239, 8287, 12288, 65279]
     \<or> (8192 \<le> c \<and> c \<le> 8202)"

definition trim :: "jsstring \<Rightarrow> jsstring" where
  "trim s = rev (dropWhile isWhiteSpace (rev (dropWhile isWhiteSpace s)))"

text \<open>\<open>Array.prototype.join\<close> on an array of strings.\<close>

fun join :: "jsstring \<Rightarrow> jsstring list \<Rightarrow> jsstring" where
  "join sep [] = []"
| "join sep [x] = x"
| "join sep (x # y # ys) = x @ sep @ join sep (y # ys)"

text \<open>
  An array of possibly undefined values whose undefined entries a preceding
  \<open>filter\<close> has removed, read as the array of the values.
\<close>

fun defined :: "'a option list \<Rightarrow> 'a list" where
  "defined [] = []"
| "defined (None # xs) = defined xs"
| "defined (Some x # xs) = x # defined xs"

subsection \<open>The host\<close>

text \<open>
  What the browser and the libraries loaded beside the application compute, and the source
  only calls: date parsing and formatting (which depend on the time zone and the locale),
  the Unicode case mappings outside ASCII, the printing of numbers outside the safe integer
  range, the HTTP client, the CSV parser and the Markdown renderer. Every operation of the
  application takes the host as a parameter, and the theorems hold for every host.
\<close>

type_synonym csv_row = "(jsstring \<times> jsstring) list"

record papa_results =
  results_data :: "csv_row list"
  results_errors :: "jsstring list"

record host =
  newDate :: "jsstring option \<Rightarrow> int option"
  setHours :: "int \<Rightarrow> int option"
  toLocaleDateString :: "int option \<Rightarrow> jsstring"
  lowerNonASCII :: "jsstring \<Rightarrow> nat \<Rightarrow> jsstring"
  upperNonASCII :: "jsstring \<Rightarrow> nat \<Rightarrow> jsstring"
  unsafeIntegerToString :: "int \<Rightarrow> jsstring"
  inheritedToString :: "jsstring \<Rightarrow> jsstring"
  http_get :: "jsstring \<Rightarrow> jsstring + jsstring"
  Papa_parse :: "jsstring \<Rightarrow> jsstring + papa_results"
  marked_parse :: "jsstring \<Rightarrow> jsstring"

text \<open>
  \<^item> \<open>newDate h v\<close> is the time value (milliseconds since the epoch) of \<open>new Date(v)\<close>,
    \<open>None\<close> for an Invalid Date.
  \<^item> \<open>setHours h t\<close> is the time value after \<open>setHours(23, 59, 59, 999)\<close> on a
    valid date \<open>t\<close>, in the local time zone.
  \<^item> \<open>lowerNonASCII h s i\<close> and \<open>upperNonASCII h s i\<close> are the code units
    that \<open>toLowerCase\<close> and \<open>toUpperCase\<close> produce for the non-ASCII code unit at
    position \<open>i\<close> of \<open>s\<close>.
  \<^item> \<open>unsafeIntegerToString h n\<close> prints the Number nearest to an integer beyond
    \<open>2 ^ 53\<close> in magnitude.
  \<^item> \<open>inheritedToString h k\<close> prints the member \<open>k\<close> of \<open>Object.prototype\<close>.
  \<^item> \<open>http_get h url\<close> is the body of the response (\<open>Inr\<close>) or the message of
    the error (\<open>Inl\<close>).
  \<^item> \<open>Papa_parse h csv\<close> is what \<open>Papa.parse\<close> hands to its \<open>complete\<close>
    callback (\<open>Inr\<close>), or the message handed to its \<open>error\<close> callback.
\<close>

definition toLowerCase :: "host \<Rightarrow> jsstring \<Rightarrow> jsstring" where
  "toLowerCase h s =
     concat (map (\<lambda>i. let c = s ! i
                        in if c < 128 then [if 65 \<le> c \<and> c \<le> 90 then c + 32 else c]
                           else lowerNonASCII h s i)
                 [0..<length s])"

definition toUpperCase :: "host \<Rightarrow> jsstring \<Rightarrow> jsstring" where
  "toUpperCase h s =
     concat (map (\<lambda>i. let c = s ! i
                        in if c < 128 then [if 97 \<le> c \<and> c \<le> 122 then c - 32 else c]
                           else upperNonASCII h s i)
                 [0..<length s])"

section \<open>The data model\<close>

text \<open>
  \<open>TicketData\<close>: the \<open>Timestamp\<close> is a Date (its time value, \<open>None\<close> when the
  date is invalid); every other property is a column of the sheet, read by its header.
\<close>

record ticket =
  Timestamp :: "int option"
  columns :: csv_row

definition get :: "ticket \<Rightarrow> jsstring \<Rightarrow> jsstring option" where
  "get d k = map_of (columns d) k"

text \<open>The state of a summary signal: \<open>{ loading, content }\<close>.\<close>

record summary =
  loading :: bool
  content :: "jsstring option"

definition createSummarySignal :: summary where
  "createSummarySignal = \<lparr>loading = False, content = None\<rparr>"

text \<open>The signals of \<open>AppComponent\<close>.\<close>

record component =
  sheetUrl :: jsstring
  isLoading :: bool
  errorMessage :: "jsstring option"
  dataLoaded :: bool
  startDate :: jsstring
  endDate :: jsstring
  selectedMateria :: jsstring
  selectedParalelo :: jsstring
  appliedStartDate :: jsstring
  appliedEndDate :: jsstring
  appliedSelectedMateria :: jsstring
  appliedSelectedParalelo :: jsstring
  allData :: "ticket list"
  learnings :: summary
  confused :: summary
  questions :: summary
  suggestions :: summary
  lessonPlan :: summary
  studentGuide :: summary
  isPriorityListVisible :: bool
  isRawDataVisible :: bool
  isModalVisible :: bool
  modalNextTopic :: jsstring
  modalNumStudents :: jsstring
  modalClassDuration :: jsstring
  modalMateriaOutcome :: jsstring
  modalUnitOutcome :: jsstring
  modalClassProduct :: jsstring
  modalErrorMessage :: "jsstring option"

section \<open>DataService\<close>

definition learningIndex :: jsstring where
  "learningIndex =
     [191] @ str ''Cu'' @ [225] @ str ''l es el aprendizaje m'' @ [225] @
     str ''s importante que te llevas de la clase de hoy?''"

definition confusedIndex :: jsstring where
  "confusedIndex =
     [191] @ str ''Qu'' @ [233] @ str '' punto de la clase te result'' @ [243] @ str '' m'' @
     [225] @ str ''s confuso o te dej'' @ [243] @ str '' con dudas?''"

definition questionIndex :: jsstring where
  "questionIndex =
     [191] @ str ''Tienes alguna pregunta que te gustar'' @ [237] @
     str ''a que sea respondida la siguiente clase?''"

definition comprehensionIndex :: jsstring where
  "comprehensionIndex =
     str ''Sobre tu nivel de comprensi'' @ [243] @
     str ''n de la clase de hoy, marca una opci'' @ [243] @ str ''n:  ''"

definition suggestionIndex :: jsstring where
  "suggestionIndex =
     [191] @ str ''C'' @ [243] @
     str ''mo puedo ayudarte a comprender mejor el tema avanzado?''"

definition engagementIndex :: jsstring where
  "engagementIndex =
     str ''Pensando en tu participaci'' @ [243] @ str ''n y esfuerzo en la clase de hoy, '' @
     [191] @ str ''c'' @ [243] @ str ''mo te autoevaluar'' @ [237] @
     str ''as? Marca una opci'' @ [243] @ str ''n:''"

definition scoreIndex :: jsstring where
  "scoreIndex =
     str ''Mi satisfacci'' @ [243] @
     str ''n con la clase fue... (Califica la clase de hoy en un puntaje de'' @
     str ''l 1 al 10, donde 1 es insatisfecho y 10 es muy satisfecho)''"

definition requiredHeaders :: "jsstring list" where
  "requiredHeaders =
     [str ''Timestamp'', str ''Email Address'', str ''Materia'', str ''Paralelo'',
      learningIndex, confusedIndex, questionIndex,
      comprehensionIndex, suggestionIndex, engagementIndex, scoreIndex]"

section \<open>The filter engine\<close>

text \<open>
  The relational operators on two Dates compare their time values, and are false when
  either date is invalid.
\<close>

definition date_ge :: "int option \<Rightarrow> int option \<Rightarrow> bool" where
  "date_ge a b = (case (a, b) of (Some x, Some y) \<Rightarrow> x \<ge> y | _ \<Rightarrow> False)"

definition date_le :: "int option \<Rightarrow> int option \<Rightarrow> bool" where
  "date_le a b = (case (a, b) of (Some x, Some y) \<Rightarrow> x \<le> y | _ \<Rightarrow> False)"

definition filteredData :: "host \<Rightarrow> component \<Rightarrow> ticket list" where
  "filteredData h s =
     (let rows = allData s;
          start = appliedStartDate s;
          end = appliedEndDate s;
          materia = appliedSelectedMateria s;
          paralelo = appliedSelectedParalelo s
      in if rows = [] then []
         else filter (\<lambda>row.
           let rowDate = Timestamp row;
               isAfterStartDate = (start = [] \<or> date_ge rowDate (newDate h (Some start)));
               endDateTime = (if end \<noteq> [] then Option.bind (newDate h (Some end)) (setHours h)
                              else None);
               isBeforeEndDate = (end = [] \<or> date_le rowDate endDateTime);
               isCorrectMateria = (materia = [] \<or> get row (str ''Materia'') = Some materia);
               isCorrectParalelo = (paralelo = [] \<or> get row (str ''Paralelo'') = Some paralelo)
           in isAfterStartDate \<and> isBeforeEndDate \<and> isCorrectMateria \<and> isCorrectParalelo) rows)"

definition resetAISummaries :: "component \<Rightarrow> component" where
  "resetAISummaries s =
     s\<lparr>learnings := \<lparr>loading = False, content = None\<rparr>,
       confused := \<lparr>loading = False, content = None\<rparr>,
       questions := \<lparr>loading = False, content = None\<rparr>,
       suggestions := \<lparr>loading = False, content = None\<rparr>\<rparr>"

definition resetLessonPlan :: "component \<Rightarrow> component" where
  "resetLessonPlan s =
     s\<lparr>lessonPlan := \<lparr>loading = False, content = None\<rparr>,
       studentGuide := \<lparr>loading = False, content = None\<rparr>\<rparr>"

definition applyFilters :: "component \<Rightarrow> component" where
  "applyFilters s =
     resetLessonPlan (resetAISummaries
       (s\<lparr>appliedStartDate := startDate s,
          appliedEndDate := endDate s,
          appliedSelectedMateria := selectedMateria s,
          appliedSelectedParalelo := selectedParalelo s\<rparr>))"

section \<open>The row importer\<close>

text \<open>
  The errors \<open>loadDataFromSheet\<close> rejects with. In the source each is an \<open>Error\<close>
  with its message; the constructors name the throw sites after the error taxonomy of the
  specification. \<open>FetchError\<close> carries the message of the HTTP client's error,
  \<open>ParseError\<close> the message of the parser's first error, \<open>LoadError\<close> the message
  handed to the parser's \<open>error\<close> callback.
\<close>

datatype load_error =
  EmptyUrl | InvalidUrl | FetchError jsstring | LoadError jsstring
  | ParseError jsstring | EmptySheet | SchemaMismatch

definition msg_missing_url :: jsstring where
  "msg_missing_url =
     str ''Por favor, introduce una URL v'' @ [225] @ str ''lida.''"

definition msg_invalid_url :: jsstring where
  "msg_invalid_url =
     str ''Formato de URL no v'' @ [225] @ str ''lido. Por favor, usa la URL est'' @ [225] @
     str ''ndar de Google Sheet.''"

definition msg_parse_error :: jsstring where
  "msg_parse_error =
     str ''No se pudo analizar el archivo CSV. ''"

definition msg_empty_sheet :: jsstring where
  "msg_empty_sheet =
     str ''La hoja de c'' @ [225] @ str ''lculo est'' @ [225] @ str '' vac'' @ [237] @
     str ''a o no tiene datos v'' @ [225] @ str ''lidos.''"

definition msg_schema_mismatch :: jsstring where
  "msg_schema_mismatch =
     str ''La estructura de la hoja de c'' @ [225] @
     str ''lculo no coincide con el formato esperado. Por favor, revisa los'' @
     str '' encabezados de las columnas.''"

definition msg_load_error :: jsstring where
  "msg_load_error =
     str ''No se pudo cargar la hoja de c'' @ [225] @ str ''lculo. Aseg'' @ [250] @
     str ''rate de que la URL sea correcta y que la hoja sea p'' @ [250] @ str ''blica. ''"

fun error_message :: "load_error \<Rightarrow> jsstring" where
  "error_message EmptyUrl = msg_missing_url"
| "error_message InvalidUrl = msg_invalid_url"
| "error_message (FetchError m) = m"
| "error_message (LoadError m) = msg_load_error @ m"
| "error_message (ParseError m) = msg_parse_error @ m"
| "error_message EmptySheet = msg_empty_sheet"
| "error_message SchemaMismatch = msg_schema_mismatch"

text \<open>
  The two regular expressions are a literal prefix followed by a greedy, non-empty run of
  one character class: \<open>/\/d\/([a-zA-Z0-9-_]+)/\<close> and \<open>/gid=(\d+)/\<close>.
  \<open>match_after prefix cls s\<close> is the capture group of the leftmost match in \<open>s\<close>,
  \<open>None\<close> when \<open>s.match\<close> returns \<open>null\<close>.
\<close>

definition isSheetIdChar :: "nat \<Rightarrow> bool" where
  "isSheetIdChar c \<longleftrightarrow>
     (97 \<le> c \<and> c \<le> 122) \<or> (65 \<le> c \<and> c \<le> 90) \<or> (48 \<le> c \<and> c \<le> 57) \<or> c = 45 \<or> c = 95"

definition isDigit :: "nat \<Rightarrow> bool" where
  "isDigit c \<longleftrightarrow> 48 \<le> c \<and> c \<le> 57"

fun match_after :: "jsstring \<Rightarrow> (nat \<Rightarrow> bool) \<Rightarrow> jsstring \<Rightarrow> jsstring option" where
  "match_after prefix cls [] = None"
| "match_after prefix cls (c # cs) =
     (if take (length prefix) (c # cs) = prefix
         \<and> takeWhile cls (drop (length prefix) (c # cs)) \<noteq> []
      then Some (takeWhile cls (drop (length prefix) (c # cs)))
      else match_after prefix cls cs)"

definition csvUrl :: "jsstring \<Rightarrow> jsstring \<Rightarrow> jsstring" where
  "csvUrl url sheetId =
     (let gid = (case match_after (str ''gid='') isDigit url of
                   Some g \<Rightarrow> g
                 | None \<Rightarrow> str ''0'')
      in str ''https://docs.google.com/spreadsheets/d/'' @ sheetId
         @ str ''/export?format=csv&gid='' @ gid)"

text \<open>A property of a parsed row is truthy when it is there and not the empty string.\<close>

definition truthy :: "jsstring option \<Rightarrow> bool" where
  "truthy v = (case v of None \<Rightarrow> False | Some x \<Rightarrow> x \<noteq> [])"

definition processedData :: "host \<Rightarrow> csv_row list \<Rightarrow> ticket list" where
  "processedData h rows =
     map (\<lambda>d. \<lparr>Timestamp = newDate h (map_of d (str ''Timestamp'')),
                columns = filter (\<lambda>(k, v). k \<noteq> str ''Timestamp'') d\<rparr>)
         (filter (\<lambda>row. truthy (map_of row (str ''Materia''))) rows)"

definition loadDataFromSheet :: "host \<Rightarrow> jsstring \<Rightarrow> load_error + ticket list" where
  "loadDataFromSheet h url =
     (if url = [] then Inl EmptyUrl
      else case match_after (str ''/d/'') isSheetIdChar url of
        None \<Rightarrow> Inl InvalidUrl
      | Some sheetId \<Rightarrow>
          (case http_get h (csvUrl url sheetId) of
             Inl m \<Rightarrow> Inl (FetchError m)
           | Inr csvData \<Rightarrow>
               (case Papa_parse h csvData of
                  Inl m \<Rightarrow> Inl (LoadError m)
                | Inr results \<Rightarrow>
                    if results_errors results \<noteq> []
                    then Inl (ParseError (hd (results_errors results)))
                    else if results_data results = [] then Inl EmptySheet
                    else
                      let headers = map fst (hd (results_data results));
                          hasAllRequired =
                            list_all (\<lambda>header. header \<in> set headers) requiredHeaders
                      in if \<not> hasAllRequired then Inl SchemaMismatch
                         else Inr (processedData h (results_data results)))))"

text \<open>
  \<open>loadData\<close> of the component, with the import run to its end: the statements before
  the \<open>await\<close>, then the \<open>try\<close> or the \<open>catch\<close> branch, then \<open>finally\<close>.
\<close>

definition loadData :: "host \<Rightarrow> component \<Rightarrow> component" where
  "loadData h s0 =
     (let s = s0\<lparr>isLoading := True, errorMessage := None, dataLoaded := False\<rparr>
      in (case loadDataFromSheet h (sheetUrl s) of
            Inr rows \<Rightarrow> (applyFilters (s\<lparr>allData := rows\<rparr>))\<lparr>dataLoaded := True\<rparr>
          | Inl error \<Rightarrow> s\<lparr>errorMessage := Some (error_message error), allData := []\<rparr>)
         \<lparr>isLoading := False\<rparr>)"

section \<open>GeminiService\<close>

text \<open>
  \<open>generateContent\<close> awaits the model's answer. Its argument here is the outcome of the
  API call: the text of the response, or the error the call threw, as a string. What it
  returns or throws is what the continuation of \<open>callGemini\<close> receives.
\<close>

definition generateContent :: "jsstring + jsstring \<Rightarrow> jsstring + jsstring" where
  "generateContent outcome =
     (case outcome of
        Inr text \<Rightarrow> Inr text
      | Inl error \<Rightarrow> Inl (str ''Failed to generate content: '' @ error))"

section \<open>The report requester\<close>

datatype summary_type = Learnings | Confused | Questions | Suggestions

text \<open>The six summary signals, as the \<open>stateSignal\<close> argument names them.\<close>

datatype signal_ref =
  LearningsSignal | ConfusedSignal | QuestionsSignal | SuggestionsSignal
  | LessonPlanSignal | StudentGuideSignal

fun signal_set :: "signal_ref \<Rightarrow> summary \<Rightarrow> component \<Rightarrow> component" where
  "signal_set LearningsSignal v s = s\<lparr>learnings := v\<rparr>"
| "signal_set ConfusedSignal v s = s\<lparr>confused := v\<rparr>"
| "signal_set QuestionsSignal v s = s\<lparr>questions := v\<rparr>"
| "signal_set SuggestionsSignal v s = s\<lparr>suggestions := v\<rparr>"
| "signal_set LessonPlanSignal v s = s\<lparr>lessonPlan := v\<rparr>"
| "signal_set StudentGuideSignal v s = s\<lparr>studentGuide := v\<rparr>"

text \<open>
  A call of the external generation service: what \<open>callGemini\<close> passes to
  \<open>generateContent\<close>, and the signal that will receive the answer.
\<close>

record request =
  req_userQuery :: jsstring
  req_systemPrompt :: jsstring
  req_stateSignal :: signal_ref

definition error_html_1 :: jsstring where
  "error_html_1 =
     str ''<p class='' @ [34] @ str ''text-red-600 font-semibold'' @ [34] @ str ''>Error: ''"

definition error_html_2 :: jsstring where
  "error_html_2 =
     str ''</p>''"

text \<open>
  \<open>callGemini\<close> runs in two steps. Up to its \<open>await\<close> it marks the signal as
  loading and issues the request; \<open>callGemini_settle\<close> is its continuation, run with
  what \<open>generateContent\<close> returned or threw.
\<close>

definition callGemini ::
  "jsstring \<Rightarrow> jsstring \<Rightarrow> signal_ref \<Rightarrow> component \<Rightarrow> component \<times> request" where
  "callGemini uq sp sig s =
     (signal_set sig \<lparr>loading = True, content = None\<rparr> s,
      \<lparr>req_userQuery = uq, req_systemPrompt = sp, req_stateSignal = sig\<rparr>)"

definition callGemini_settle ::
  "host \<Rightarrow> signal_ref \<Rightarrow> jsstring + jsstring \<Rightarrow> component \<Rightarrow> component" where
  "callGemini_settle h sig result s =
     (case result of
        Inr text \<Rightarrow> signal_set sig \<lparr>loading = False, content = Some (marked_parse h text)\<rparr> s
      | Inl message \<Rightarrow>
          signal_set sig
            \<lparr>loading = False, content = Some (error_html_1 @ message @ error_html_2)\<rparr> s)"

definition systemPrompt_learnings :: jsstring where
  "systemPrompt_learnings =
     str ''Eres un asistente de an'' @ [225] @
     str ''lisis educativo. Tu tarea es leer las respuestas de los estudian'' @
     str ''tes sobre su aprendizaje m'' @ [225] @
     str ''s importante de la clase y generar un resumen conciso y profesio'' @
     str ''nal, identificando los 3 a 5 temas o ideas principales mencionad'' @
     str ''os. Formatea el resultado usando Markdown con una lista numerada'' @
     str '' de los puntos clave.''"

definition systemPrompt_confused :: jsstring where
  "systemPrompt_confused =
     str ''Eres un asistente de an'' @ [225] @
     str ''lisis educativo. Tu tarea es leer las respuestas de los estudian'' @
     str ''tes sobre los puntos m'' @ [225] @
     str ''s confusos de la clase y generar un resumen conciso, identifican'' @
     str ''do los 3 a 5 temas principales que causaron confusi'' @ [243] @
     str ''n. Prioriza las '' @ [225] @ str ''reas de refuerzo m'' @ [225] @
     str ''s urgentes. Formatea el resultado usando Markdown con una lista '' @
     str ''numerada.''"

definition systemPrompt_questions :: jsstring where
  "systemPrompt_questions =
     str ''Eres un asistente educativo. Tu tarea es leer las preguntas de l'' @
     str ''os estudiantes para la siguiente clase y generar un resumen conc'' @
     str ''iso, agrupando las 3 a 5 preguntas o temas m'' @ [225] @
     str ''s solicitados para abordar al inicio de la pr'' @ [243] @ str ''xima sesi'' @
     [243] @ str ''n. Formatea el resultado usando Markdown con una lista numerada.''"

definition systemPrompt_suggestions :: jsstring where
  "systemPrompt_suggestions =
     str ''Eres un analista de feedback. Tu tarea es leer las sugerencias d'' @
     str ''e los estudiantes sobre c'' @ [243] @
     str ''mo el docente puede ayudarlos a comprender mejor el tema y gener'' @
     str ''ar un resumen conciso de las 3 a 5 peticiones principales (ej: '' @ [39] @
     str ''m'' @ [225] @ str ''s ejemplos pr'' @ [225] @ str ''cticos'' @ [39] @ str '', '' @
     [39] @ str ''m'' @ [225] @ str ''s tiempo de laboratorio'' @ [39] @
     str ''). Formatea el resultado usando Markdown con una lista numerada.''"

definition no_meaningful_responses :: jsstring where
  "no_meaningful_responses =
     str ''<p class='' @ [34] @ str ''text-gray-500 font-semibold text-sm'' @ [34] @
     str ''>Los estudiantes no proporcionaron respuestas significativas en '' @
     str ''este filtro.</p>''"

definition userQuery_summary_1 :: jsstring where
  "userQuery_summary_1 =
     str ''Contexto: Materia: ''"

definition userQuery_summary_2 :: jsstring where
  "userQuery_summary_2 =
     str ''. Respuestas a analizar:'' @ [10, 10]"

text \<open>The \<open>switch\<close> of \<open>generateSummary\<close>: the column, the system prompt and the signal.\<close>

fun summary_case :: "summary_type \<Rightarrow> jsstring \<times> jsstring \<times> signal_ref" where
  "summary_case Learnings = (learningIndex, systemPrompt_learnings, LearningsSignal)"
| "summary_case Confused = (confusedIndex, systemPrompt_confused, ConfusedSignal)"
| "summary_case Questions = (questionIndex, systemPrompt_questions, QuestionsSignal)"
| "summary_case Suggestions = (suggestionIndex, systemPrompt_suggestions, SuggestionsSignal)"

text \<open>The local \<open>responses\<close> of \<open>generateSummary\<close>, for a list of records.\<close>

definition responses_of :: "host \<Rightarrow> jsstring \<Rightarrow> ticket list \<Rightarrow> jsstring list" where
  "responses_of h dataIndex rows =
     defined
       (filter
          (\<lambda>text. case text of
                     None \<Rightarrow> False
                   | Some t \<Rightarrow>
                       t \<noteq> [] \<and> t \<noteq> str ''.''
                       \<and> toLowerCase h t
                           \<notin> set [str ''no'', str ''ninguna'', str ''ninguno'', str ''nada''])
          (map (\<lambda>d. map_option trim (get d dataIndex)) rows))"

text \<open>
  The answers the filter of \<open>generateSummary\<close> is said to drop, in the words of the
  specification: a missing or blank answer, a bare period, and the tokens no, ninguna,
  ninguno and nada in any letter case.
\<close>

definition non_answer :: "host \<Rightarrow> jsstring option \<Rightarrow> bool" where
  "non_answer h v =
     (case v of
        None \<Rightarrow> True
      | Some a \<Rightarrow>
          trim a = [] \<or> trim a = str ''.''
          \<or> toLowerCase h (trim a) \<in> set [str ''no'', str ''ninguna'', str ''ninguno'', str ''nada''])"

definition generateSummary ::
  "host \<Rightarrow> summary_type \<Rightarrow> component \<Rightarrow> component \<times> request option" where
  "generateSummary h t s =
     (let rows = filteredData h s
      in if rows = [] then (s, None)
         else case summary_case t of (dataIndex, systemPrompt, stateSignal) \<Rightarrow>
           let responses = responses_of h dataIndex rows
           in if responses = []
              then (signal_set stateSignal
                      \<lparr>loading = False, content = Some no_meaningful_responses\<rparr> s,
                    None)
              else
                let userQuery =
                      userQuery_summary_1
                      @ (if selectedMateria s \<noteq> [] then selectedMateria s else str ''Todas'')
                      @ userQuery_summary_2
                      @ join [10, 45, 45, 45, 10] responses
                in case callGemini userQuery systemPrompt stateSignal s of
                     (s', r) \<Rightarrow> (s', Some r))"

definition default_confusedText :: jsstring where
  "default_confusedText =
     str ''No hay puntos confusos destacados por la IA (Genera el resumen d'' @
     str ''e confusi'' @ [243] @ str ''n si es necesario)''"

definition default_questionsText :: jsstring where
  "default_questionsText =
     str ''No hay preguntas pendientes destacadas por la IA (Genera el resu'' @
     str ''men de preguntas si es necesario)''"

definition msg_required_fields :: jsstring where
  "msg_required_fields =
     str ''Por favor, rellena todos los campos requeridos (*).''"

definition systemPrompt_plan_1 :: jsstring where
  "systemPrompt_plan_1 =
     str ''Eres un dise'' @ [241] @
     str ''ador instruccional experto. Crea un plan de clase h'' @ [237] @
     str ''brido y estructurado para una clase de ''"

definition systemPrompt_plan_2 :: jsstring where
  "systemPrompt_plan_2 =
     str '' minutos. El objetivo es: 1) Reforzar los '' @ [39] @ str ''Puntos Confusos'' @
     [39] @ str '' y responder las '' @ [39] @ str ''Preguntas Pendientes'' @ [39] @
     str '' de la clase anterior, y 2) Introducir el nuevo tema: '' @ [34]"

definition systemPrompt_plan_3 :: jsstring where
  "systemPrompt_plan_3 =
     [34] @ str ''. El plan debe ser profesional y pr'' @ [225] @
     str ''ctico. Estructura el resultado usando Markdown con estos 4 pasos'' @
     str '' principales, ajustando los tiempos para sumar ''"

definition systemPrompt_plan_4 :: jsstring where
  "systemPrompt_plan_4 =
     str '' minutos: ### 1. Inicio y Revisi'' @ [243] @
     str ''n, ### 2. Desarrollo del Nuevo Tema, ### 3. Actividad de Aplicac'' @ str ''i'' @
     [243] @ str ''n y Preguntas, ### 4. Cierre y Pr'' @ [243] @ str ''ximos Pasos.''"

definition userQuery_plan_1 :: jsstring where
  "userQuery_plan_1 =
     str ''**Materia:** ''"

definition userQuery_plan_2 :: jsstring where
  "userQuery_plan_2 =
     str ''. **Estudiantes:** ''"

definition userQuery_plan_3 :: jsstring where
  "userQuery_plan_3 =
     str ''.'' @ [10] @ str ''    **Nuevo Tema:** ''"

definition userQuery_plan_4 :: jsstring where
  "userQuery_plan_4 =
     [10] @ str ''    **Resultados de Aprendizaje:**'' @ [10] @ str ''    - Materia: ''"

definition userQuery_plan_5 :: jsstring where
  "userQuery_plan_5 =
     [10] @ str ''    - Unidad: ''"

definition userQuery_plan_6 :: jsstring where
  "userQuery_plan_6 =
     [10] @ str ''    - Producto de la Clase (Opcional): ''"

definition userQuery_plan_7 :: jsstring where
  "userQuery_plan_7 =
     [10] @ str ''    **Feedback de Estudiantes a Abordar:**'' @ [10] @
     str ''    1. Puntos Confusos: ''"

definition userQuery_plan_8 :: jsstring where
  "userQuery_plan_8 =
     [10] @ str ''    2. Preguntas Pendientes: ''"

definition userQuery_plan_9 :: jsstring where
  "userQuery_plan_9 =
     [10] @ str ''    **Instrucci'' @ [243] @
     str ''n Final:** Genera un plan de clase detallado en 4 pasos.''"

text \<open>\<open>a || b\<close> on strings, where \<open>a\<close> may be \<open>null\<close>: \<open>a\<close> unless it is falsy.\<close>

definition or_else :: "jsstring option \<Rightarrow> jsstring \<Rightarrow> jsstring" where
  "or_else a b = (case a of None \<Rightarrow> b | Some x \<Rightarrow> if x = [] then b else x)"

definition generateLessonPlan :: "component \<Rightarrow> component \<times> request option" where
  "generateLessonPlan s0 =
     (let s = s0\<lparr>modalErrorMessage := None\<rparr>;
          confusedText = or_else (content (confused s)) default_confusedText;
          questionsText = or_else (content (questions s)) default_questionsText;
          requiredFields =
            [modalNextTopic s, modalNumStudents s, modalClassDuration s,
             modalMateriaOutcome s, modalUnitOutcome s]
      in if list_ex (\<lambda>field. field = []) requiredFields
         then (s\<lparr>modalErrorMessage := Some msg_required_fields\<rparr>, None)
         else
           let s1 = s\<lparr>isModalVisible := False\<rparr>;
               systemPrompt =
                 systemPrompt_plan_1 @ modalClassDuration s1
                 @ systemPrompt_plan_2 @ modalNextTopic s1
                 @ systemPrompt_plan_3 @ modalClassDuration s1
                 @ systemPrompt_plan_4;
               userQuery =
                 userQuery_plan_1 @ selectedMateria s1
                 @ userQuery_plan_2 @ modalNumStudents s1
                 @ userQuery_plan_3 @ modalNextTopic s1
                 @ userQuery_plan_4 @ modalMateriaOutcome s1
                 @ userQuery_plan_5 @ modalUnitOutcome s1
                 @ userQuery_plan_6 @ or_else (Some (modalClassProduct s1)) (str ''Ninguno'')
                 @ userQuery_plan_7 @ confusedText
                 @ userQuery_plan_8 @ questionsText
                 @ userQuery_plan_9
           in case callGemini userQuery systemPrompt LessonPlanSignal s1 of
                (s', r) \<Rightarrow> (s', Some r))"

section \<open>Numbers\<close>

text \<open>
  A finite Number is the rational it denotes. Every arithmetic operation of the source
  rounds its exact result to the nearest binary64 value, ties to the even significand:
  \<open>binary64 x\<close> is that value, with \<open>exponent2 x\<close> the exponent of the binade of
  \<open>x\<close> and \<open>- 1022\<close> the exponent of the subnormal numbers. Overflow to Infinity is
  not modelled; the sums and quotients below stay far from it.
\<close>

definition round_half_even :: "rat \<Rightarrow> int" where
  "round_half_even x =
     (let f = \<lfloor>x\<rfloor>; r = x - of_int f
      in if r < 1 / 2 then f else if 1 / 2 < r then f + 1 else if even f then f else f + 1)"

definition exponent2 :: "rat \<Rightarrow> int" where
  "exponent2 x = (if 1 \<le> x then bitlen \<lfloor>x\<rfloor> - 1 else - bitlen (\<lceil>1 / x\<rceil> - 1))"

definition binary64 :: "rat \<Rightarrow> rat" where
  "binary64 x =
     (if x = 0 then 0
      else let e = max (exponent2 \<bar>x\<bar>) (- 1022); q = 2 powi (e - 52)
           in sgn x * of_int (round_half_even (\<bar>x\<bar> / q)) * q)"

text \<open>\<open>xs.reduce((a, b) => a + b, 0)\<close> on an array of Numbers.\<close>

definition reduce_add :: "rat list \<Rightarrow> rat" where
  "reduce_add xs = foldl (\<lambda>a b. binary64 (a + b)) 0 xs"

text \<open>The decimal digits of a natural number.\<close>

fun digits :: "nat \<Rightarrow> jsstring" where
  "digits n = (if n < 10 then [48 + n] else digits (n div 10) @ [48 + n mod 10])"

declare digits.simps [simp del]

text \<open>
  \<open>x.toFixed(2)\<close>, for a Number below \<open>10 ^ 21\<close> in magnitude: the integer \<open>n\<close>
  for which \<open>n / 100\<close> is nearest to \<open>x\<close>, the larger one of two, printed with two
  decimals. \<open>hundredths n\<close> prints \<open>n / 100\<close>.
\<close>

definition hundredths :: "nat \<Rightarrow> jsstring" where
  "hundredths n = digits (n div 100) @ [46] @ [48 + n mod 100 div 10, 48 + n mod 10]"

definition toFixed2 :: "rat \<Rightarrow> jsstring" where
  "toFixed2 x = (if x < 0 then [45] else []) @ hundredths (nat \<lfloor>100 * \<bar>x\<bar> + 1 / 2\<rfloor>)"

text \<open>
  The string of an integral Number, as a template literal prints it: the decimal digits in
  the safe integer range, and what the host prints beyond it.
\<close>

definition numberToString :: "host \<Rightarrow> int \<Rightarrow> jsstring" where
  "numberToString h n =
     (if \<bar>n\<bar> \<le> 2 ^ 53 then (if n < 0 then [45] else []) @ digits (nat \<bar>n\<bar>)
      else unsafeIntegerToString h n)"

text \<open>
  \<open>parseInt(v)\<close> without a radix: leading white space is skipped, a sign is read, the
  prefix \<open>0x\<close> or \<open>0X\<close> selects radix 16, and the longest run of digits is the
  integer; \<open>None\<close> is NaN. The result is the mathematical integer: the Number it
  rounds to compares with 1, 7 and 10 as the integer does.
\<close>

definition digitValue :: "nat \<Rightarrow> nat option" where
  "digitValue c =
     (if 48 \<le> c \<and> c \<le> 57 then Some (c - 48)
      else if 97 \<le> c \<and> c \<le> 122 then Some (c - 87)
      else if 65 \<le> c \<and> c \<le> 90 then Some (c - 55)
      else None)"

definition isRadixDigit :: "nat \<Rightarrow> nat \<Rightarrow> bool" where
  "isRadixDigit R c = (case digitValue c of None \<Rightarrow> False | Some v \<Rightarrow> v < R)"

definition digitOf :: "nat \<Rightarrow> nat" where
  "digitOf c = (case digitValue c of Some v \<Rightarrow> v | None \<Rightarrow> 0)"

definition parseInt :: "jsstring option \<Rightarrow> int option" where
  "parseInt v =
     (case v of
        None \<Rightarrow> None
      | Some inputString \<Rightarrow>
          let S = dropWhile isWhiteSpace inputString;
              sign = (if S \<noteq> [] \<and> hd S = 45 then - 1 else 1);
              S1 = (if S \<noteq> [] \<and> (hd S = 43 \<or> hd S = 45) then tl S else S);
              hex = (take 2 S1 = str ''0x'' \<or> take 2 S1 = str ''0X'');
              R = (if hex then 16 else 10);
              S2 = (if hex then drop 2 S1 else S1);
              Z = takeWhile (isRadixDigit R) S2
          in if Z = [] then None
             else Some (sign * int (foldl (\<lambda>a c. a * R + digitOf c) 0 Z)))"

section \<open>Object literals as dictionaries\<close>

text \<open>
  \<open>obj[key]\<close> on an object literal finds the literal's own properties, and after them
  the members every object inherits from \<open>Object.prototype\<close>, which are functions and
  objects; an \<open>undefined\<close> key reads the property named \<open>undefined\<close>.
\<close>

datatype 'a property = Own 'a | Inherited | Absent

definition Object_prototype :: "jsstring list" where
  "Object_prototype =
     [str ''constructor'', str ''hasOwnProperty'', str ''isPrototypeOf'',
      str ''propertyIsEnumerable'', str ''toLocaleString'', str ''toString'', str ''valueOf'',
      str ''__proto__'', str ''__defineGetter__'', str ''__defineSetter__'',
      str ''__lookupGetter__'', str ''__lookupSetter__'']"

definition lookup :: "(jsstring \<times> 'a) list \<Rightarrow> jsstring option \<Rightarrow> 'a property" where
  "lookup obj key =
     (let k = (case key of None \<Rightarrow> str ''undefined'' | Some k \<Rightarrow> k)
      in case map_of obj k of
           Some v \<Rightarrow> Own v
         | None \<Rightarrow> if k \<in> set Object_prototype then Inherited else Absent)"

section \<open>The aggregator\<close>

subsection \<open>Mean score\<close>

text \<open>
  The local \<open>scores\<close> of \<open>averageScore\<close>, and the signal. The length of an
  array is below \<open>2 ^ 32\<close>, and so an exact Number.
\<close>

definition averageScore_scores :: "host \<Rightarrow> component \<Rightarrow> int list" where
  "averageScore_scores h s =
     defined
       (filter (\<lambda>v. case v of None \<Rightarrow> False | Some n \<Rightarrow> 1 \<le> n \<and> n \<le> 10)
          (map (\<lambda>d. parseInt (get d scoreIndex)) (filteredData h s)))"

definition averageScore :: "host \<Rightarrow> component \<Rightarrow> jsstring" where
  "averageScore h s =
     (let scores = averageScore_scores h s
      in if scores \<noteq> []
         then toFixed2 (binary64 (reduce_add (map of_int scores) / of_nat (length scores)))
         else str ''N/A'')"

subsection \<open>Comprehension level\<close>

definition answer_entendido :: jsstring where
  "answer_entendido =
     [161] @ str ''Entendido! - Lo domino y podr'' @ [237] @ str ''a explicarlo.''"

definition answer_mas_o_menos :: jsstring where
  "answer_mas_o_menos =
     str ''M'' @ [225] @ str ''s o menos. - Entend'' @ [237] @
     str '' la idea general, pero tengo dudas.''"

definition answer_no_entendi :: jsstring where
  "answer_no_entendi =
     str ''No entend'' @ [237] @ str '' casi nada. - Me siento bastante perdido/a.''"

definition label_excelente :: jsstring where
  "label_excelente =
     [161] @ str ''Excelente Comprensi'' @ [243] @ str ''n!''"

definition label_buena :: jsstring where
  "label_buena =
     str ''Buena (Pocas Dudas)''"

definition label_media :: jsstring where
  "label_media =
     str ''Media (Necesita Revisi'' @ [243] @ str ''n)''"

definition label_baja :: jsstring where
  "label_baja =
     str ''Baja (Refuerzo Urgente)''"

definition comprehensionMap :: "(jsstring \<times> rat) list" where
  "comprehensionMap = [(answer_entendido, 3), (answer_mas_o_menos, 2), (answer_no_entendi, 1)]"

text \<open>
  \<open>filter(Boolean)\<close> keeps the truthy entries: a weight other than 0, and every inherited
  member.
\<close>

fun truthy_weight :: "rat property \<Rightarrow> bool" where
  "truthy_weight (Own w) = (w \<noteq> 0)"
| "truthy_weight Inherited = True"
| "truthy_weight Absent = False"

definition averageComprehension_scores :: "host \<Rightarrow> component \<Rightarrow> rat property list" where
  "averageComprehension_scores h s =
     filter truthy_weight
       (map (\<lambda>d. lookup comprehensionMap (map_option trim (get d comprehensionIndex)))
          (filteredData h s))"

text \<open>
  \<open>scores.reduce((a, b) => a + b, 0)\<close> on such an array: the sum of the weights, or,
  once an inherited member is added, a string that is not a numeral (\<open>None\<close>): the
  quotient is then NaN, and every comparison with it is false.
\<close>

fun weights :: "rat property list \<Rightarrow> rat list option" where
  "weights [] = Some []"
| "weights (Own w # ps) = map_option ((#) w) (weights ps)"
| "weights (p # ps) = None"

definition averageComprehension :: "host \<Rightarrow> component \<Rightarrow> jsstring" where
  "averageComprehension h s =
     (let scores = averageComprehension_scores h s
      in if scores = [] then str ''N/A''
         else case weights scores of
           None \<Rightarrow> label_baja
         | Some ws \<Rightarrow>
             let avg = binary64 (reduce_add ws / of_nat (length scores))
             in if binary64 (27 / 10) \<le> avg then label_excelente
                else if 2 \<le> avg then label_buena
                else if 1 \<le> avg then label_media
                else label_baja)"

text \<open>
  The comprehension level in the words of the specification, for the weights of the
  answers that map: the exact average, bucketed at 2.7, 2.0 and 1.0; and the weights of the
  own properties in an array of looked-up values.
\<close>

definition comprehension_level :: "rat list \<Rightarrow> jsstring" where
  "comprehension_level ws =
     (if ws = [] then str ''N/A''
      else let avg = sum_list ws / of_nat (length ws)
           in if 27 / 10 \<le> avg then label_excelente
              else if 2 \<le> avg then label_buena
              else if 1 \<le> avg then label_media
              else label_baja)"

fun own_weights :: "rat property list \<Rightarrow> rat list" where
  "own_weights [] = []"
| "own_weights (Own w # ps) = w # own_weights ps"
| "own_weights (p # ps) = own_weights ps"

subsection \<open>Priority students\<close>

record PriorityStudent =
  name :: jsstring
  materia :: "jsstring option"
  paralelo :: "jsstring option"
  fecha :: jsstring
  razon :: jsstring
  badgeColor :: jsstring

definition comprehensionPriorityValue :: jsstring where
  "comprehensionPriorityValue = answer_no_entendi"

definition comprehensionLabels :: "(jsstring \<times> jsstring) list" where
  "comprehensionLabels =
     [(answer_entendido, str ''Dominado''),
      (answer_mas_o_menos, str ''Dudas/Idea General''),
      (answer_no_entendi, str ''Perdido/a'')]"

definition razon_both_1 :: jsstring where
  "razon_both_1 =
     str ''Comprensi'' @ [243] @ str ''n Baja y Satisfacci'' @ [243] @ str ''n Baja (''"

definition razon_both_2 :: jsstring where
  "razon_both_2 =
     str ''/10)''"

definition razon_comprehension_1 :: jsstring where
  "razon_comprehension_1 =
     str ''Comprensi'' @ [243] @ str ''n Baja: ''"

definition razon_score_1 :: jsstring where
  "razon_score_1 =
     str ''Satisfacci'' @ [243] @ str ''n Baja (''"

definition razon_score_2 :: jsstring where
  "razon_score_2 =
     str ''/10)''"

text \<open>
  The two flags of a record, as the \<open>filter\<close> and the \<open>map\<close> of
  \<open>priorityStudents\<close> both compute them.
\<close>

definition lowScore :: "ticket \<Rightarrow> bool" where
  "lowScore d = (case parseInt (get d scoreIndex) of None \<Rightarrow> False | Some score \<Rightarrow> score \<le> 7)"

definition lowComprehension :: "ticket \<Rightarrow> bool" where
  "lowComprehension d \<longleftrightarrow>
     map_option trim (get d comprehensionIndex) = Some comprehensionPriorityValue"

definition priorityStudent :: "host \<Rightarrow> ticket \<Rightarrow> PriorityStudent" where
  "priorityStudent h d =
     (let score = parseInt (get d scoreIndex);
          shown = (case score of None \<Rightarrow> str ''NaN'' | Some n \<Rightarrow> numberToString h n);
          key = map_option trim (get d comprehensionIndex);
          reason =
            (if lowComprehension d \<and> lowScore d then razon_both_1 @ shown @ razon_both_2
             else if lowComprehension d
             then razon_comprehension_1
                  @ (case lookup comprehensionLabels key of
                       Own l \<Rightarrow> if l = [] then str ''N/A'' else l
                     | Inherited \<Rightarrow> inheritedToString h (case key of Some k \<Rightarrow> k | None \<Rightarrow> [])
                     | Absent \<Rightarrow> str ''N/A'')
             else if lowScore d then razon_score_1 @ shown @ razon_score_2
             else [])
      in \<lparr>name =
            (case get d (str ''Email Address'') of
               None \<Rightarrow> str ''Desconocido''
             | Some email \<Rightarrow>
                 let n = toUpperCase h
                           (map (\<lambda>c. if c = 46 then 32 else c) (takeWhile (\<lambda>c. c \<noteq> 64) email))
                 in if n = [] then str ''Desconocido'' else n),
          materia = get d (str ''Materia''),
          paralelo = get d (str ''Paralelo''),
          fecha = toLocaleDateString h (Timestamp d),
          razon = reason,
          badgeColor =
            (if lowComprehension d \<and> lowScore d then str ''bg-red-700''
             else if lowComprehension d then str ''bg-red-500''
             else str ''bg-yellow-600'')\<rparr>)"

definition priorityStudents :: "host \<Rightarrow> component \<Rightarrow> PriorityStudent list" where
  "priorityStudents h s =
     map (priorityStudent h)
       (filter (\<lambda>d. lowScore d \<or> lowComprehension d) (filteredData h s))"

text \<open>
  The rank the specification gives to the three severity tags: both flags above
  comprehension only, above score only.
\<close>

definition severity :: "jsstring \<Rightarrow> nat" where
  "severity badge =
     (if badge = str ''bg-red-700'' then 3
      else if badge = str ''bg-red-500'' then 2
      else if badge = str ''bg-yellow-600'' then 1
      else 0)"

section \<open>Sample hosts, records and states\<close>

text \<open>
  A host without network, dates or Unicode tables: every date is invalid, a non-ASCII code
  unit is its own lower and upper case, and every request fails.
\<close>

definition offline_host :: host where
  "offline_host =
     \<lparr>newDate = (\<lambda>v. None),
      setHours = (\<lambda>t. None),
      toLocaleDateString = (\<lambda>t. str ''Invalid Date''),
      lowerNonASCII = (\<lambda>s i. [s ! i]),
      upperNonASCII = (\<lambda>s i. [s ! i]),
      unsafeIntegerToString = (\<lambda>n. str ''-Infinity''),
      inheritedToString = (\<lambda>k. str ''[object Object]''),
      http_get = (\<lambda>url. Inl (str ''Http failure response'')),
      Papa_parse = (\<lambda>csv. Inr \<lparr>results_data = [], results_errors = []\<rparr>),
      marked_parse = (\<lambda>text. text)\<rparr>"

text \<open>The component as its field initialisers leave it.\<close>

definition initial :: component where
  "initial =
     \<lparr>sheetUrl = [], isLoading = False, errorMessage = None, dataLoaded = False,
      startDate = [], endDate = [], selectedMateria = [], selectedParalelo = [],
      appliedStartDate = [], appliedEndDate = [],
      appliedSelectedMateria = [], appliedSelectedParalelo = [],
      allData = [],
      learnings = createSummarySignal, confused = createSummarySignal,
      questions = createSummarySignal, suggestions = createSummarySignal,
      lessonPlan = createSummarySignal, studentGuide = createSummarySignal,
      isPriorityListVisible = False, isRawDataVisible = False, isModalVisible = False,
      modalNextTopic = [], modalNumStudents = [], modalClassDuration = [],
      modalMateriaOutcome = [], modalUnitOutcome = [], modalClassProduct = [],
      modalErrorMessage = None\<rparr>"

text \<open>
  A record of the subject Fisica, section A, with one text for the four free-text answers,
  a comprehension answer and a satisfaction score.
\<close>

definition survey_row :: "jsstring \<Rightarrow> jsstring \<Rightarrow> jsstring \<Rightarrow> ticket" where
  "survey_row answer comprehension score =
     \<lparr>Timestamp = Some 0,
      columns =
        [(str ''Email Address'', str ''ana.perez@example.org''),
         (str ''Materia'', str ''Fisica''),
         (str ''Paralelo'', str ''A''),
         (learningIndex, answer), (confusedIndex, answer), (questionIndex, answer),
         (comprehensionIndex, comprehension), (suggestionIndex, answer),
         (engagementIndex, []), (scoreIndex, score)]\<rparr>"

definition loaded :: "ticket list \<Rightarrow> component" where
  "loaded rows = initial\<lparr>allData := rows, dataLoaded := True\<rparr>"

text \<open>Three records whose free-text answers are no, a bare period and Nada.\<close>

definition three_non_answers :: component where
  "three_non_answers =
     loaded [survey_row (str ''no'') [] [], survey_row (str ''.'') [] [],
             survey_row (str ''Nada'') [] []]"

text \<open>The lesson plan form with every mandatory input but the unit outcome.\<close>

definition plan_form_without_unit :: component where
  "plan_form_without_unit =
     initial\<lparr>modalNextTopic := str ''Cinematica'', modalNumStudents := str ''30'',
             modalClassDuration := str ''90'',
             modalMateriaOutcome := str ''Analiza el movimiento''\<rparr>"

text \<open>
  The form with every mandatory input but the next topic, and the form whose five
  mandatory inputs are white space only.
\<close>

definition plan_form_without_topic :: component where
  "plan_form_without_topic =
     initial\<lparr>modalNumStudents := str ''30'', modalClassDuration := str ''90'',
             modalMateriaOutcome := str ''Analiza el movimiento'',
             modalUnitOutcome := str ''Resuelve problemas de caida libre''\<rparr>"

definition plan_form_of_spaces :: component where
  "plan_form_of_spaces =
     initial\<lparr>modalNextTopic := str ''  '', modalNumStudents := str '' '',
             modalClassDuration := str '' '', modalMateriaOutcome := str '' '',
             modalUnitOutcome := str '' ''\<rparr>"

text \<open>One record of Fisica loaded, and the applied selection asks for Quimica.\<close>

definition other_subject :: component where
  "other_subject =
     (loaded [survey_row (str ''no'') [] []])\<lparr>appliedSelectedMateria := str ''Quimica''\<rparr>"

text \<open>
  A sharing link, a parsed sheet whose header row lacks the satisfaction score, a host that
  serves this sheet for every URL, and a component that holds one record when the URL
  \<open>url\<close> is submitted.
\<close>

definition shared_url :: jsstring where
  "shared_url = str ''https://docs.google.com/spreadsheets/d/1AbC-9_z/edit#gid=42''"

definition sheet_without_score :: csv_row where
  "sheet_without_score =
     [(str ''Timestamp'', str ''3/11/2025 10:15:00''),
      (str ''Email Address'', str ''ana.perez@example.org''),
      (str ''Materia'', str ''Fisica''), (str ''Paralelo'', str ''A''),
      (learningIndex, str ''Vectores''), (confusedIndex, str ''no''),
      (questionIndex, str ''.''), (comprehensionIndex, str ''Nada''),
      (suggestionIndex, str ''no''), (engagementIndex, [])]"

definition sheet_host :: host where
  "sheet_host =
     offline_host
       \<lparr>http_get := (\<lambda>url. Inr (str ''Timestamp,Email Address'')),
        Papa_parse := (\<lambda>csv. Inr \<lparr>results_data = [sheet_without_score], results_errors = []\<rparr>)\<rparr>"

definition reloading :: "jsstring \<Rightarrow> component" where
  "reloading url = (loaded [survey_row (str ''Vectores'') [] (str ''8'')])\<lparr>sheetUrl := url\<rparr>"

text \<open>Records with the satisfaction scores 0, 1, 10, 11 and 7, and with 10 and 9.\<close>

definition five_scores :: component where
  "five_scores =
     loaded [survey_row [] [] (str ''0''), survey_row [] [] (str ''1''),
             survey_row [] [] (str ''10''), survey_row [] [] (str ''11''),
             survey_row [] [] (str ''7'')]"

definition two_scores :: component where
  "two_scores = loaded [survey_row [] [] (str ''10''), survey_row [] [] (str ''9'')]"

text \<open>
  Four students: a score of 5 with the highest comprehension, a score of 9 with the lowest,
  a score of 5 with the lowest, and a score of 9 with the highest.
\<close>

definition four_students :: component where
  "four_students =
     loaded [survey_row [] answer_entendido (str ''5''),
             survey_row [] answer_no_entendi (str ''9''),
             survey_row [] answer_no_entendi (str ''5''),
             survey_row [] answer_entendido (str ''9'')]"

text \<open>One record whose comprehension answer is the word constructor.\<close>

definition inherited_answer :: component where
  "inherited_answer = loaded [survey_row [] (str ''constructor'') (str ''8'')]"

text \<open>The records of a list of comprehension answers.\<close>

definition answered :: "jsstring list \<Rightarrow> component" where
  "answered cs = loaded (map (\<lambda>c. survey_row [] c []) cs)"

section \<open>Auxiliary lemmas\<close>

subsection \<open>Evaluation of the samples\<close>

lemmas index_defs = learningIndex_def confusedIndex_def questionIndex_def comprehensionIndex_def
  suggestionIndex_def engagementIndex_def scoreIndex_def

lemma filteredData_loaded: "filteredData h (loaded rows) = rows"
  by (simp add: filteredData_def loaded_def initial_def Let_def)

lemma get_survey_row:
  "get (survey_row a c n) learningIndex = Some a"
  "get (survey_row a c n) confusedIndex = Some a"
  "get (survey_row a c n) questionIndex = Some a"
  "get (survey_row a c n) suggestionIndex = Some a"
  "get (survey_row a c n) comprehensionIndex = Some c"
  "get (survey_row a c n) scoreIndex = Some n"
  by (simp_all add: get_def survey_row_def index_defs str_def)

lemma non_answer_examples:
  "non_answer offline_host (Some (str ''no''))"
  "non_answer offline_host (Some (str ''.''))"
  "non_answer offline_host (Some (str ''Nada''))"
  by (simp_all add: non_answer_def trim_def isWhiteSpace_def toLowerCase_def str_def upt_rec)

subsection \<open>The answers the report requester drops\<close>

lemma defined_filter_Nil:
  "defined (filter P xs) = [] \<longleftrightarrow> (\<forall>x \<in> set xs. P x \<longrightarrow> x = None)"
  by (induction xs rule: defined.induct) auto

lemma responses_of_Nil:
  "responses_of h k rows = [] \<longleftrightarrow> (\<forall>d \<in> set rows. non_answer h (get d k))"
  unfolding responses_of_def defined_filter_Nil non_answer_def
  by (auto split: option.splits)

subsection \<open>The regular expressions of the importer\<close>

text \<open>
  \<open>match_after\<close> finds no match exactly when the string has no occurrence of the prefix
  followed by a character of the class.
\<close>

lemma match_here_iff:
  "(take (length prefix) s = prefix \<and> takeWhile cls (drop (length prefix) s) \<noteq> [])
   \<longleftrightarrow> (\<exists>c post. s = prefix @ c # post \<and> cls c)"
proof
  assume a: "take (length prefix) s = prefix \<and> takeWhile cls (drop (length prefix) s) \<noteq> []"
  then obtain c post where d: "drop (length prefix) s = c # post" and c: "cls c"
    by (cases "drop (length prefix) s") (auto split: if_splits)
  have "s = take (length prefix) s @ drop (length prefix) s"
    by simp
  with a d have "s = prefix @ c # post"
    by simp
  with c show "\<exists>c post. s = prefix @ c # post \<and> cls c"
    by blast
next
  assume "\<exists>c post. s = prefix @ c # post \<and> cls c"
  then show "take (length prefix) s = prefix \<and> takeWhile cls (drop (length prefix) s) \<noteq> []"
    by auto
qed

lemma match_after_None_iff:
  "match_after prefix cls s = None
   \<longleftrightarrow> \<not> (\<exists>pre c post. s = pre @ prefix @ c # post \<and> cls c)"
proof (induction s)
  case Nil
  then show ?case by simp
next
  case (Cons a s)
  have split: "(\<exists>pre c post. a # s = pre @ prefix @ c # post \<and> cls c)
       \<longleftrightarrow> (\<exists>c post. a # s = prefix @ c # post \<and> cls c)
           \<or> (\<exists>pre c post. s = pre @ prefix @ c # post \<and> cls c)"
  proof
    assume "\<exists>pre c post. a # s = pre @ prefix @ c # post \<and> cls c"
    then obtain pre c post where e: "a # s = pre @ prefix @ c # post" and c: "cls c"
      by blast
    show "(\<exists>c post. a # s = prefix @ c # post \<and> cls c)
           \<or> (\<exists>pre c post. s = pre @ prefix @ c # post \<and> cls c)"
    proof (cases pre)
      case Nil
      with e c show ?thesis by auto
    next
      case (Cons b pre')
      with e have "s = pre' @ prefix @ c # post" by simp
      with c show ?thesis by blast
    qed
  next
    assume "(\<exists>c post. a # s = prefix @ c # post \<and> cls c)
           \<or> (\<exists>pre c post. s = pre @ prefix @ c # post \<and> cls c)"
    then show "\<exists>pre c post. a # s = pre @ prefix @ c # post \<and> cls c"
    proof
      assume "\<exists>c post. a # s = prefix @ c # post \<and> cls c"
      then obtain c post where "a # s = [] @ prefix @ c # post \<and> cls c" by auto
      then show ?thesis by blast
    next
      assume "\<exists>pre c post. s = pre @ prefix @ c # post \<and> cls c"
      then obtain pre c post where "a # s = (a # pre) @ prefix @ c # post \<and> cls c" by auto
      then show ?thesis by blast
    qed
  qed
  show ?case
    unfolding split using Cons.IH match_here_iff [of prefix "a # s" cls]
    by (simp del: takeWhile_eq_Nil_iff)
qed

lemma no_sheet_id: "match_after (str ''/d/'') isSheetIdChar (str ''https://example.org/sheet'') = None"
  by (simp add: str_def isSheetIdChar_def)

lemma sheet_id: "match_after (str ''/d/'') isSheetIdChar shared_url = Some (str ''1AbC-9_z'')"
  by (simp add: shared_url_def str_def isSheetIdChar_def)

lemma csv_url: "csvUrl shared_url (str ''1AbC-9_z'') = str ''https://docs.google.com/spreadsheets/d/1AbC-9_z/export?format=csv&gid=42''"
  by (simp add: csvUrl_def shared_url_def str_def isDigit_def)

lemma missing_header: "scoreIndex \<in> set requiredHeaders \<and> scoreIndex \<notin> fst ` set sheet_without_score"
  by (simp add: requiredHeaders_def sheet_without_score_def index_defs str_def)


subsection \<open>Rounding to binary64\<close>

text \<open>
  Rounding to the nearest integer is exact on integers, errs by at most one half, and never
  crosses an integer.
\<close>

lemma rhe_int: "round_half_even (of_int k) = k"
  by (simp add: round_half_even_def)

lemma rhe_cases: "round_half_even y = \<lfloor>y\<rfloor> \<or> round_half_even y = \<lfloor>y\<rfloor> + 1"
  by (simp add: round_half_even_def Let_def)

lemma rhe_err: "\<bar>of_int (round_half_even y) - y\<bar> \<le> 1 / 2"
proof -
  have "of_int \<lfloor>y\<rfloor> \<le> y" "y < of_int \<lfloor>y\<rfloor> + 1"
    by linarith+
  then show ?thesis
    by (auto simp add: round_half_even_def Let_def abs_le_iff)
qed

lemma rhe_ge: "of_int m \<le> y \<Longrightarrow> m \<le> round_half_even y"
proof -
  assume "of_int m \<le> y"
  then have "m \<le> \<lfloor>y\<rfloor>" by (simp add: le_floor_iff)
  with rhe_cases [of y] show ?thesis by auto
qed

lemma rhe_le: "y \<le> of_int m \<Longrightarrow> round_half_even y \<le> m"
proof (cases "y = of_int \<lfloor>y\<rfloor>")
  case True
  assume "y \<le> of_int m"
  with True have "\<lfloor>y\<rfloor> \<le> m" by linarith
  moreover from True have "round_half_even y = \<lfloor>y\<rfloor>"
    by (metis rhe_int)
  ultimately show ?thesis by simp
next
  case False
  assume "y \<le> of_int m"
  with False have "\<lfloor>y\<rfloor> < m"
    by (metis floor_less_iff floor_of_int le_less of_int_floor_cancel order_less_le floor_mono)
  with rhe_cases [of y] show ?thesis by auto
qed

text \<open>
  From 1 upwards \<open>exponent2\<close> is the binade, the relative error of \<open>binary64\<close> is at
  most \<open>2 ^ - 53\<close>, rounding never crosses an integer below \<open>2 ^ 53\<close>, and the
  integers below \<open>2 ^ 53\<close> are exact: so are the sums of such integers.
\<close>

lemma exponent2_bounds:
  assumes "1 \<le> x"
  shows "0 \<le> exponent2 x" and "2 ^ nat (exponent2 x) \<le> x" and "x < 2 ^ nat (exponent2 x + 1)"
proof -
  from assms have p: "0 < \<lfloor>x\<rfloor>"
    by linarith
  from bitlen_bounds [OF p]
  have b: "2 ^ nat (bitlen \<lfloor>x\<rfloor> - 1) \<le> \<lfloor>x\<rfloor>" and c: "\<lfloor>x\<rfloor> < 2 ^ nat (bitlen \<lfloor>x\<rfloor>)"
    by simp_all
  from p c have "nat (bitlen \<lfloor>x\<rfloor>) \<noteq> 0"
    by (intro notI) simp
  then have g: "1 \<le> bitlen \<lfloor>x\<rfloor>"
    by linarith
  from assms have e: "exponent2 x = bitlen \<lfloor>x\<rfloor> - 1"
    by (simp add: exponent2_def)
  from g e show "0 \<le> exponent2 x"
    by simp
  from b have "rat_of_int (2 ^ nat (bitlen \<lfloor>x\<rfloor> - 1)) \<le> rat_of_int \<lfloor>x\<rfloor>"
    by (simp only: of_int_le_iff)
  also have "\<dots> \<le> x"
    by simp
  finally show "2 ^ nat (exponent2 x) \<le> x"
    by (simp add: e)
  from c have "\<lfloor>x\<rfloor> + 1 \<le> 2 ^ nat (bitlen \<lfloor>x\<rfloor>)"
    by simp
  then have "rat_of_int (\<lfloor>x\<rfloor> + 1) \<le> rat_of_int (2 ^ nat (bitlen \<lfloor>x\<rfloor>))"
    by (simp only: of_int_le_iff)
  moreover have "x < rat_of_int (\<lfloor>x\<rfloor> + 1)"
    by simp linarith
  ultimately have "x < 2 ^ nat (bitlen \<lfloor>x\<rfloor>)"
    by simp
  with g show "x < 2 ^ nat (exponent2 x + 1)"
    by (simp add: e)
qed

lemma binary64_ge1:
  assumes "1 \<le> x"
  shows "binary64 x
         = of_int (round_half_even (x / 2 powi (exponent2 x - 52))) * 2 powi (exponent2 x - 52)"
proof -
  from exponent2_bounds(1) [OF assms] have "max (exponent2 x) (- 1022) = exponent2 x"
    by simp
  moreover from assms have "x \<noteq> 0" "\<bar>x\<bar> = x" "sgn x = 1"
    by simp_all
  ultimately show ?thesis
    by (simp add: binary64_def Let_def)
qed

lemma quantum_eq:
  assumes "0 \<le> e"
  shows "(2::rat) powi (e - 52) = 2 ^ nat e / 2 ^ 52"
proof -
  have "(2::rat) powi (e - 52) = 2 powi e / 2 powi 52"
    by (rule power_int_diff) simp
  also from assms have "(2::rat) powi e = 2 ^ nat e"
    by (simp add: power_int_def)
  finally show ?thesis
    by simp
qed

lemma binary64_error:
  assumes "1 \<le> x"
  shows "\<bar>binary64 x - x\<bar> \<le> x / 2 ^ 53"
proof -
  define q :: rat where "q = 2 powi (exponent2 x - 52)"
  have q: "0 < q"
    by (simp add: q_def zero_less_power_int)
  have "binary64 x - x = (of_int (round_half_even (x / q)) - x / q) * q"
    using q by (simp add: binary64_ge1 [OF assms] q_def [symmetric] field_simps)
  then have "\<bar>binary64 x - x\<bar> = \<bar>of_int (round_half_even (x / q)) - x / q\<bar> * q"
    using q by (simp add: abs_mult)
  also have "\<dots> \<le> 1 / 2 * q"
    using q rhe_err [of "x / q"] by (intro mult_right_mono) simp_all
  also have "\<dots> = 2 ^ nat (exponent2 x) / 2 ^ 53"
    by (simp add: q_def quantum_eq [OF exponent2_bounds(1) [OF assms]])
  also have "\<dots> \<le> x / 2 ^ 53"
    using exponent2_bounds(2) [OF assms] by (intro divide_right_mono) simp_all
  finally show ?thesis .
qed

lemma quantum_inverse:
  assumes "1 \<le> x" and "x < 2 ^ 53"
  shows "\<exists>k. (2::rat) powi (exponent2 x - 52) = 1 / 2 ^ k"
proof -
  have "(2::rat) ^ nat (exponent2 x) < 2 ^ 53"
    using exponent2_bounds(2) [OF assms(1)] assms(2) by linarith
  then have "nat (exponent2 x) < 53"
    by (simp only: power_strict_increasing_iff)
  then have le: "nat (exponent2 x) \<le> 52"
    by simp
  from le exponent2_bounds(1) [OF assms(1)]
  have "exponent2 x - 52 = - int (52 - nat (exponent2 x))"
    by linarith
  then have "(2::rat) powi (exponent2 x - 52) = inverse (2 powi int (52 - nat (exponent2 x)))"
    by (simp only: power_int_minus)
  then have "(2::rat) powi (exponent2 x - 52) = 1 / 2 ^ (52 - nat (exponent2 x))"
    by (simp only: power_int_of_nat inverse_eq_divide)
  then show ?thesis ..
qed

lemma binary64_int_lower:
  assumes "1 \<le> x" and "x < 2 ^ 53" and "of_int m \<le> x"
  shows "of_int m \<le> binary64 x"
proof -
  from quantum_inverse [OF assms(1,2)] obtain k
    where k: "(2::rat) powi (exponent2 x - 52) = 1 / 2 ^ k" ..
  from assms(3) have "rat_of_int (m * 2 ^ k) \<le> x * 2 ^ k"
    by simp
  then have "m * 2 ^ k \<le> round_half_even (x * 2 ^ k)"
    by (rule rhe_ge)
  then have "rat_of_int (m * 2 ^ k) \<le> rat_of_int (round_half_even (x * 2 ^ k))"
    by (simp only: of_int_le_iff)
  then have "rat_of_int m * 2 ^ k \<le> rat_of_int (round_half_even (x * 2 ^ k))"
    by simp
  then have "rat_of_int m \<le> rat_of_int (round_half_even (x * 2 ^ k)) / 2 ^ k"
    by (simp add: pos_le_divide_eq)
  then show ?thesis
    by (simp add: binary64_ge1 [OF assms(1)] k)
qed

lemma binary64_int_upper:
  assumes "1 \<le> x" and "x < 2 ^ 53" and "x \<le> of_int m"
  shows "binary64 x \<le> of_int m"
proof -
  from quantum_inverse [OF assms(1,2)] obtain k
    where k: "(2::rat) powi (exponent2 x - 52) = 1 / 2 ^ k" ..
  from assms(3) have "x * 2 ^ k \<le> rat_of_int (m * 2 ^ k)"
    by simp
  then have "round_half_even (x * 2 ^ k) \<le> m * 2 ^ k"
    by (rule rhe_le)
  then have "rat_of_int (round_half_even (x * 2 ^ k)) \<le> rat_of_int (m * 2 ^ k)"
    by (simp only: of_int_le_iff)
  then have "rat_of_int (round_half_even (x * 2 ^ k)) \<le> rat_of_int m * 2 ^ k"
    by simp
  then have "rat_of_int (round_half_even (x * 2 ^ k)) / 2 ^ k \<le> rat_of_int m"
    by (simp add: pos_divide_le_eq)
  then show ?thesis
    by (simp add: binary64_ge1 [OF assms(1)] k)
qed

lemma binary64_of_int:
  assumes "0 \<le> k" and "k < 2 ^ 53"
  shows "binary64 (of_int k) = of_int k"
proof (cases "k = 0")
  case True
  then show ?thesis by (simp add: binary64_def)
next
  case False
  with assms have a: "1 \<le> rat_of_int k" and b: "rat_of_int k < 2 ^ 53"
    by simp_all
  from binary64_int_lower [OF a b, of k] binary64_int_upper [OF a b, of k]
  show ?thesis by simp
qed

lemma reduce_add_exact:
  assumes "\<forall>x \<in> set xs. 0 \<le> x" and "0 \<le> a" and "a + sum_list xs < 2 ^ 53"
  shows "foldl (\<lambda>a b. binary64 (a + b)) (of_int a) (map of_int xs) = of_int (a + sum_list xs)"
  using assms
proof (induction xs arbitrary: a)
  case Nil
  then show ?case by simp
next
  case (Cons x xs)
  have nn: "0 \<le> sum_list xs"
    using Cons.prems(1) by (intro sum_list_nonneg) simp
  have "binary64 (of_int a + of_int x) = of_int (a + x)"
    using binary64_of_int [of "a + x"] Cons.prems nn by simp
  moreover have "foldl (\<lambda>a b. binary64 (a + b)) (of_int (a + x)) (map of_int xs)
      = of_int ((a + x) + sum_list xs)"
    using Cons.prems by (intro Cons.IH) simp_all
  ultimately show ?case
    by (simp add: add.assoc)
qed

text \<open>
  Sample roundings: 1.005 and 2.7 are no binary64 values, so \<open>(201 / 200).toFixed(2)\<close>
  is 1.00, while 2.125 is one and prints as 2.13.
\<close>

lemma binary64_examples:
  "binary64 (201 / 200) = 1131529406376837 / 1125899906842624"
  "binary64 (201 / 200) < 201 / 200"
  "binary64 (27 / 10) = 3039929748475085 / 1125899906842624"
  by code_simp+

lemma toFixed2_examples:
  "toFixed2 (binary64 (201 / 200)) = str ''1.00''"
  "toFixed2 (17 / 8) = str ''2.13''"
  by code_simp+

subsection \<open>The mean score\<close>

lemma set_defined: "x \<in> set (defined xs) \<longleftrightarrow> Some x \<in> set xs"
  by (induction xs rule: defined.induct) auto

lemma length_defined: "length (defined xs) \<le> length xs"
  by (induction xs rule: defined.induct) auto

lemma map_Some_defined: "None \<notin> set xs \<Longrightarrow> map Some (defined xs) = xs"
  by (induction xs rule: defined.induct) auto

lemma length_filteredData: "length (filteredData h s) \<le> length (allData s)"
  by (simp add: filteredData_def Let_def)

lemma averageScore_scores_range:
  "n \<in> set (averageScore_scores h s) \<Longrightarrow> 1 \<le> n \<and> n \<le> 10"
  by (auto simp add: averageScore_scores_def set_defined)

lemma averageScore_scores_length:
  "length (averageScore_scores h s) \<le> length (allData s)"
proof -
  have "length (averageScore_scores h s) \<le> length (filteredData h s)"
    unfolding averageScore_scores_def
    by (rule order_trans [OF length_defined]) (simp add: order_trans [OF length_filter_le])
  with length_filteredData [of h s] show ?thesis
    by simp
qed

lemma sum_list_bounds:
  fixes xs :: "int list"
  assumes "\<forall>n \<in> set xs. 1 \<le> n \<and> n \<le> 10"
  shows "int (length xs) \<le> sum_list xs \<and> sum_list xs \<le> 10 * int (length xs)"
  using assms by (induction xs) auto

text \<open>The mean of in-range scores, as the code computes it.\<close>

lemma mean_computed:
  fixes xs :: "int list"
  assumes r: "\<forall>n \<in> set xs. 1 \<le> n \<and> n \<le> 10" and ne: "xs \<noteq> []" and len: "length xs < 2 ^ 32"
  defines "mean \<equiv> rat_of_int (sum_list xs) / of_nat (length xs)"
  shows "reduce_add (map of_int xs) = of_int (sum_list xs)"
    and "1 \<le> mean" and "mean \<le> 10"
    and "1 \<le> binary64 mean" and "binary64 mean \<le> 10"
    and "\<bar>binary64 mean - mean\<bar> \<le> 10 / 2 ^ 53"
proof -
  from sum_list_bounds [OF r]
  have lo: "int (length xs) \<le> sum_list xs" and hi: "sum_list xs \<le> 10 * int (length xs)"
    by simp_all
  from len have "int (length xs) < 2 ^ 32"
    by (metis of_nat_less_iff of_nat_numeral of_nat_power)
  with hi have small: "sum_list xs < 2 ^ 53"
    by simp
  have "\<forall>x \<in> set xs. 0 \<le> x"
    using r by auto
  from reduce_add_exact [OF this, of 0] small
  show "reduce_add (map of_int xs) = of_int (sum_list xs)"
    by (simp add: reduce_add_def)
  from ne have pos: "0 < rat_of_nat (length xs)"
    by simp
  from lo have "rat_of_int (int (length xs)) \<le> rat_of_int (sum_list xs)"
    by (simp only: of_int_le_iff)
  with pos show m1: "1 \<le> mean"
    by (simp add: mean_def pos_le_divide_eq)
  from hi have "rat_of_int (sum_list xs) \<le> rat_of_int (10 * int (length xs))"
    by (simp only: of_int_le_iff)
  with pos show m10: "mean \<le> 10"
    by (simp add: mean_def pos_divide_le_eq)
  from m10 have lt: "mean < 2 ^ 53"
    by simp
  from binary64_int_lower [OF m1 lt, of 1] m1 show "1 \<le> binary64 mean"
    by simp
  from binary64_int_upper [OF m1 lt, of 10] m10 show "binary64 mean \<le> 10"
    by simp
  have "\<bar>binary64 mean - mean\<bar> \<le> mean / 2 ^ 53"
    by (rule binary64_error [OF m1])
  also have "\<dots> \<le> 10 / 2 ^ 53"
    using m10 by (intro divide_right_mono) simp_all
  finally show "\<bar>binary64 mean - mean\<bar> \<le> 10 / 2 ^ 53" .
qed

text \<open>
  Rounding the computed quotient to hundredths gives a hundredth nearest to the exact
  quotient.
\<close>

lemma nearest_hundredth:
  fixes S :: int and L :: nat and x :: rat
  assumes L: "0 < L" "L < 2 ^ 32"
    and x: "\<bar>x - of_int S / of_nat L\<bar> \<le> 10 / 2 ^ 53"
  shows "\<bar>rat_of_int \<lfloor>100 * x + 1 / 2\<rfloor> - 100 * (of_int S / of_nat L)\<bar> \<le> 1 / 2"
proof -
  define N where "N = \<lfloor>100 * x + 1 / 2\<rfloor>"
  define mean where "mean = rat_of_int S / of_nat L"
  have N1: "of_int N \<le> 100 * x + 1 / 2" and N2: "100 * x + 1 / 2 < of_int N + 1"
    unfolding N_def by linarith+
  have Lpos: "0 < rat_of_nat L"
    using L(1) by simp
  have Lsmall: "rat_of_nat L < 2 ^ 32"
    using L(2) by (metis of_nat_less_iff of_nat_numeral of_nat_power)
  define eps :: rat where "eps = 10 / 2 ^ 53"
  define g :: rat where "g = 1 / (2 * rat_of_nat L)"
  have gap: "100 * eps < g"
  proof -
    have "100 * eps * (2 * rat_of_nat L) < 100 * eps * (2 * 2 ^ 32)"
      using Lsmall by (intro mult_strict_left_mono) (simp_all add: eps_def)
    also have "\<dots> < 1"
      by (simp add: eps_def)
    finally show ?thesis
      using Lpos unfolding g_def by (simp only: pos_less_divide_eq)
  qed
  from x have "\<bar>x - mean\<bar> \<le> eps"
    by (simp only: mean_def eps_def)
  then have x1: "x - mean \<le> eps" and x2: "mean - x \<le> eps"
    by linarith+
  have upper: "100 * mean - of_int N \<le> 1 / 2"
  proof (rule ccontr)
    assume "\<not> 100 * mean - of_int N \<le> 1 / 2"
    then have "rat_of_int (2 * N + 1) * of_nat L < rat_of_int (200 * S)"
      using Lpos by (simp add: mean_def field_simps)
    then have "rat_of_int ((2 * N + 1) * int L) < rat_of_int (200 * S)"
      by simp
    then have "(2 * N + 1) * int L < 200 * S"
      by (simp only: of_int_less_iff)
    then have "(2 * N + 1) * int L + 1 \<le> 200 * S"
      by simp
    then have "rat_of_int ((2 * N + 1) * int L + 1) \<le> rat_of_int (200 * S)"
      by (simp only: of_int_le_iff)
    then have "rat_of_int ((2 * N + 1) * int L + 1) / (2 * rat_of_nat L)
        \<le> rat_of_int (200 * S) / (2 * rat_of_nat L)"
      using Lpos by (intro divide_right_mono) simp_all
    moreover have "rat_of_int ((2 * N + 1) * int L + 1) / (2 * rat_of_nat L)
        = of_int N + 1 / 2 + 1 / (2 * rat_of_nat L)"
      using Lpos by (simp add: field_simps)
    moreover have "rat_of_int (200 * S) / (2 * rat_of_nat L) = 100 * mean"
      by (simp add: mean_def)
    ultimately have "of_int N + 1 / 2 + g \<le> 100 * mean"
      by (simp add: g_def)
    with N2 have "g < 100 * mean - 100 * x"
      by linarith
    with x2 gap show False
      by linarith
  qed
  have lower: "of_int N - 100 * mean \<le> 1 / 2"
  proof (rule ccontr)
    assume "\<not> of_int N - 100 * mean \<le> 1 / 2"
    then have "rat_of_int (200 * S) < rat_of_int (2 * N - 1) * of_nat L"
      using Lpos by (simp add: mean_def field_simps)
    then have "rat_of_int (200 * S) < rat_of_int ((2 * N - 1) * int L)"
      by simp
    then have "200 * S < (2 * N - 1) * int L"
      by (simp only: of_int_less_iff)
    then have "200 * S + 1 \<le> (2 * N - 1) * int L"
      by simp
    then have "rat_of_int (200 * S + 1) \<le> rat_of_int ((2 * N - 1) * int L)"
      by (simp only: of_int_le_iff)
    then have "rat_of_int (200 * S + 1) / (2 * rat_of_nat L)
        \<le> rat_of_int ((2 * N - 1) * int L) / (2 * rat_of_nat L)"
      using Lpos by (intro divide_right_mono) simp_all
    moreover have "rat_of_int ((2 * N - 1) * int L) / (2 * rat_of_nat L) = of_int N - 1 / 2"
      using Lpos by (simp add: field_simps)
    moreover have "rat_of_int (200 * S + 1) / (2 * rat_of_nat L)
        = 100 * mean + 1 / (2 * rat_of_nat L)"
      using Lpos by (simp add: mean_def add_divide_distrib)
    ultimately have "100 * mean + g \<le> of_int N - 1 / 2"
      by (simp add: g_def)
    with N1 have "g \<le> 100 * x - 100 * mean"
      by linarith
    with x1 gap show False
      by linarith
  qed
  from upper lower have "\<bar>of_int N - 100 * mean\<bar> \<le> 1 / 2"
    by linarith
  then show ?thesis
    by (simp only: N_def mean_def)
qed

lemma parseInt_examples:
  "parseInt (Some (str ''0'')) = Some 0"
  "parseInt (Some (str ''1'')) = Some 1"
  "parseInt (Some (str ''5'')) = Some 5"
  "parseInt (Some (str ''7'')) = Some 7"
  "parseInt (Some (str ''9'')) = Some 9"
  "parseInt (Some (str ''10'')) = Some 10"
  "parseInt (Some (str ''11'')) = Some 11"
  by (simp_all add: parseInt_def str_def isWhiteSpace_def isRadixDigit_def digitValue_def
      digitOf_def Let_def)

lemma hundredths_examples:
  "hundredths 100 = str ''1.00''"
  "hundredths 600 = str ''6.00''"
  "hundredths 950 = str ''9.50''"
  "hundredths 1000 = str ''10.00''"
  by (simp_all add: hundredths_def digits.simps str_def)

lemma toFixed2_not_NA: "toFixed2 x \<noteq> str ''N/A''"
proof -
  have "46 \<in> set (toFixed2 x)"
    by (simp add: toFixed2_def hundredths_def)
  moreover have "46 \<notin> set (str ''N/A'')"
    by (simp add: str_def)
  ultimately show ?thesis
    by metis
qed

lemma averageScore_NA_iff: "averageScore h s = str ''N/A'' \<longleftrightarrow> averageScore_scores h s = []"
  by (simp add: averageScore_def Let_def toFixed2_not_NA)

lemma averageScore_scores_Some:
  "map Some (averageScore_scores h s)
   = filter (\<lambda>v. \<exists>n. v = Some n \<and> 1 \<le> n \<and> n \<le> 10)
       (map (\<lambda>d. parseInt (get d scoreIndex)) (filteredData h s))"
proof -
  have eq: "(\<lambda>v. \<exists>n. v = Some n \<and> 1 \<le> n \<and> n \<le> 10)
      = (\<lambda>s. case s of None \<Rightarrow> False | Some n \<Rightarrow> (1::int) \<le> n \<and> n \<le> 10)"
    by (auto split: option.splits)
  show ?thesis
    unfolding averageScore_scores_def eq
    by (rule map_Some_defined) simp
qed

lemma averageScore_rounded:
  assumes ne: "averageScore_scores h s \<noteq> []" and len: "length (allData s) < 2 ^ 32"
  defines "mean \<equiv> rat_of_int (sum_list (averageScore_scores h s))
                    / of_nat (length (averageScore_scores h s))"
  shows "\<exists>n. averageScore h s = hundredths n \<and> 100 \<le> n \<and> n \<le> 1000
             \<and> \<bar>rat_of_nat n - 100 * mean\<bar> \<le> 1 / 2"
proof -
  let ?sc = "averageScore_scores h s"
  define x where "x = binary64 mean"
  define N where "N = \<lfloor>100 * x + 1 / 2\<rfloor>"
  have r: "\<forall>n \<in> set ?sc. 1 \<le> n \<and> n \<le> 10"
    using averageScore_scores_range by blast
  have l: "length ?sc < 2 ^ 32"
    using averageScore_scores_length [of h s] len by simp
  note m = mean_computed [OF r ne l, folded mean_def]
  have x1: "1 \<le> x" and x10: "x \<le> 10"
    using m(4,5) by (simp_all add: x_def)
  have avg: "averageScore h s = hundredths (nat N)"
    using ne x1 by (simp add: averageScore_def Let_def m(1) mean_def [symmetric]
        x_def [symmetric] toFixed2_def N_def)
  have "rat_of_int 100 \<le> 100 * x + 1 / 2"
    using x1 by simp
  then have lo: "100 \<le> N"
    unfolding N_def by (simp only: le_floor_iff)
  have "100 * x + 1 / 2 < rat_of_int 1001"
    using x10 by simp
  then have "N < 1001"
    unfolding N_def by (simp only: floor_less_iff)
  then have hi: "N \<le> 1000"
    by simp
  have "0 < length ?sc"
    using ne by simp
  from nearest_hundredth [OF this l, of x "sum_list ?sc"] m(6)
  have "\<bar>rat_of_int N - 100 * mean\<bar> \<le> 1 / 2"
    by (simp add: x_def N_def mean_def)
  moreover have "rat_of_nat (nat N) = rat_of_int N"
    using lo by simp
  ultimately have "\<bar>rat_of_nat (nat N) - 100 * mean\<bar> \<le> 1 / 2"
    by simp
  moreover from lo hi have "100 \<le> nat N" "nat N \<le> 1000"
    by linarith+
  ultimately show ?thesis
    using avg by (intro exI [of _ "nat N"]) simp
qed

lemma nearest_nat:
  assumes "\<bar>rat_of_nat n - rat_of_nat m\<bar> \<le> 1 / 2"
  shows "n = m"
proof -
  from assms have "rat_of_nat n < rat_of_nat m + 1" and "rat_of_nat m < rat_of_nat n + 1"
    by linarith+
  then have "rat_of_nat n < rat_of_nat (m + 1)" and "rat_of_nat m < rat_of_nat (n + 1)"
    by simp_all
  then have "n < m + 1" and "m < n + 1"
    by (simp_all only: of_nat_less_iff)
  then show ?thesis
    by simp
qed


subsection \<open>Comprehension answers and priority flags\<close>

lemmas answer_defs = answer_entendido_def answer_mas_o_menos_def answer_no_entendi_def

lemma answers_distinct:
  "answer_entendido \<noteq> answer_mas_o_menos" "answer_entendido \<noteq> answer_no_entendi"
  "answer_mas_o_menos \<noteq> answer_no_entendi" "answer_mas_o_menos \<noteq> answer_entendido"
  "answer_no_entendi \<noteq> answer_entendido" "answer_no_entendi \<noteq> answer_mas_o_menos"
  "str ''undefined'' \<noteq> answer_entendido" "str ''undefined'' \<noteq> answer_mas_o_menos"
  "str ''undefined'' \<noteq> answer_no_entendi"
  by (simp_all add: answer_defs str_def)

lemma trim_answers:
  "trim answer_entendido = answer_entendido"
  "trim answer_mas_o_menos = answer_mas_o_menos"
  "trim answer_no_entendi = answer_no_entendi"
  by (simp_all add: trim_def answer_defs str_def isWhiteSpace_def)

lemma lowScore_iff: "lowScore d \<longleftrightarrow> (\<exists>n. parseInt (get d scoreIndex) = Some n \<and> n \<le> 7)"
  by (simp add: lowScore_def split: option.splits)

lemma lowest_weight_iff:
  "lookup comprehensionMap key = Own 1 \<longleftrightarrow> key = Some answer_no_entendi"
  by (cases key) (auto simp add: lookup_def comprehensionMap_def answers_distinct Let_def)

lemma lowComprehension_iff:
  "lowComprehension d
   \<longleftrightarrow> lookup comprehensionMap (map_option trim (get d comprehensionIndex)) = Own 1"
  by (simp add: lowComprehension_def comprehensionPriorityValue_def lowest_weight_iff)

lemma razon_prefixes:
  "razon_both_1 \<noteq> []" "razon_comprehension_1 \<noteq> []" "razon_score_1 \<noteq> []"
  by (simp_all add: razon_both_1_def razon_comprehension_1_def razon_score_1_def str_def)

lemma badges:
  "severity (str ''bg-red-700'') = 3" "severity (str ''bg-red-500'') = 2"
  "severity (str ''bg-yellow-600'') = 1"
  by (simp_all add: severity_def str_def)

lemma flags_examples:
  "lowScore (survey_row a c (str ''5''))" "\<not> lowScore (survey_row a c (str ''9''))"
  "lowComprehension (survey_row a answer_no_entendi n)"
  "\<not> lowComprehension (survey_row a answer_entendido n)"
  by (simp_all add: lowScore_def lowComprehension_def comprehensionPriorityValue_def
      get_survey_row parseInt_examples trim_answers answers_distinct)

lemma numberToString_5: "numberToString h 5 = str ''5''"
  by (simp add: numberToString_def digits.simps str_def)

lemma label_no_entendi:
  "lookup comprehensionLabels (Some answer_no_entendi) = Own (str ''Perdido/a'')"
  by (simp add: lookup_def comprehensionLabels_def answers_distinct)

lemma Perdido_not_empty: "str ''Perdido/a'' \<noteq> []"
  by (simp add: str_def)

lemma razon_examples:
  "razon (priorityStudent h (survey_row a answer_entendido (str ''5'')))
     = razon_score_1 @ str ''5'' @ razon_score_2"
  "razon (priorityStudent h (survey_row a answer_no_entendi (str ''9'')))
     = razon_comprehension_1 @ str ''Perdido/a''"
  "razon (priorityStudent h (survey_row a answer_no_entendi (str ''5'')))
     = razon_both_1 @ str ''5'' @ razon_both_2"
  by (simp_all add: priorityStudent_def Let_def flags_examples get_survey_row parseInt_examples
      numberToString_5 trim_answers label_no_entendi Perdido_not_empty)

lemma trim_constructor: "trim (str ''constructor'') = str ''constructor''"
  by (simp add: trim_def str_def isWhiteSpace_def)

lemma lookup_constructor: "lookup comprehensionMap (Some (str ''constructor'')) = Inherited"
  by (simp add: lookup_def comprehensionMap_def Object_prototype_def answer_defs str_def)

lemma labels_not_NA: "label_baja \<noteq> str ''N/A''"
  by (simp add: label_baja_def str_def)


subsection \<open>The comprehension level\<close>

lemma lookup_comprehensionMap:
  "lookup comprehensionMap key = Own w \<Longrightarrow> w = 1 \<or> w = 2 \<or> w = 3"
  by (auto simp add: lookup_def comprehensionMap_def Let_def split: option.splits if_splits)

lemma averageComprehension_scores_cases:
  assumes "p \<in> set (averageComprehension_scores h s)"
  shows "p = Inherited \<or> p = Own 1 \<or> p = Own 2 \<or> p = Own 3"
proof (cases p)
  case (Own w)
  with assms lookup_comprehensionMap [of _ w] show ?thesis
    by (auto simp add: averageComprehension_scores_def)
next
  case Inherited
  then show ?thesis by simp
next
  case Absent
  with assms show ?thesis
    by (auto simp add: averageComprehension_scores_def)
qed

lemma weights_own:
  assumes "\<forall>p \<in> set ps. p = Own 1 \<or> p = Own 2 \<or> p = Own 3"
  shows "\<exists>xs. weights ps = Some (map rat_of_int xs) \<and> own_weights ps = map rat_of_int xs
              \<and> length xs = length ps \<and> (\<forall>n \<in> set xs. 1 \<le> n \<and> n \<le> 10)"
  using assms
proof (induction ps)
  case Nil
  then show ?case by simp
next
  case (Cons p ps)
  then obtain xs where xs: "weights ps = Some (map rat_of_int xs)"
      "own_weights ps = map rat_of_int xs" "length xs = length ps"
      "\<forall>n \<in> set xs. 1 \<le> n \<and> n \<le> 10"
    by auto
  from Cons.prems consider "p = Own 1" | "p = Own 2" | "p = Own 3"
    by auto
  then show ?case
  proof cases
    case 1
    with xs show ?thesis
      by (intro exI [of _ "1 # xs"]) simp
  next
    case 2
    with xs show ?thesis
      by (intro exI [of _ "2 # xs"]) simp
  next
    case 3
    with xs show ?thesis
      by (intro exI [of _ "3 # xs"]) simp
  qed
qed

text \<open>
  A quotient of an integer by a length below \<open>2 ^ 32\<close> is either 27/10 or farther from
  it than the two rounding errors together, so the comparison of the rounded quotient
  with the rounded literal decides as the exact one.
\<close>

lemma threshold_27:
  fixes S :: int and L :: nat
  assumes L: "0 < L" "L < 2 ^ 32"
    and m: "1 \<le> rat_of_int S / of_nat L" "rat_of_int S / of_nat L \<le> 10"
  shows "binary64 (27 / 10) \<le> binary64 (rat_of_int S / of_nat L)
         \<longleftrightarrow> 27 / 10 \<le> rat_of_int S / of_nat L"
proof -
  define mean where "mean = rat_of_int S / of_nat L"
  define t :: rat where "t = 27 / 10"
  define eps :: rat where "eps = 10 / 2 ^ 53"
  define g :: rat where "g = 1 / (10 * rat_of_nat L)"
  have Lpos: "0 < rat_of_nat L"
    using L(1) by simp
  have Lsmall: "rat_of_nat L < 2 ^ 32"
    using L(2) by (metis of_nat_less_iff of_nat_numeral of_nat_power)
  have gap: "2 * eps < g"
  proof -
    have "2 * eps * (10 * rat_of_nat L) < 2 * eps * (10 * 2 ^ 32)"
      using Lsmall by (intro mult_strict_left_mono) (simp_all add: eps_def)
    also have "\<dots> < 1"
      by (simp add: eps_def)
    finally show ?thesis
      using Lpos unfolding g_def by (simp only: pos_less_divide_eq)
  qed
  have "\<bar>binary64 t - t\<bar> \<le> t / 2 ^ 53"
    by (rule binary64_error) (simp add: t_def)
  also have "\<dots> \<le> eps"
    by (simp add: t_def eps_def)
  finally have te: "\<bar>binary64 t - t\<bar> \<le> eps" .
  have "\<bar>binary64 mean - mean\<bar> \<le> mean / 2 ^ 53"
    using m(1) by (intro binary64_error) (simp add: mean_def)
  also have "\<dots> \<le> eps"
    using m(2) unfolding eps_def mean_def by (intro divide_right_mono) simp_all
  finally have me: "\<bar>binary64 mean - mean\<bar> \<le> eps" .
  have below: "mean + g \<le> t" if lt: "mean < t"
  proof -
    from lt have "rat_of_int (10 * S) < rat_of_int (27 * int L)"
      using Lpos by (simp add: mean_def t_def field_simps)
    then have "10 * S < 27 * int L"
      by (simp only: of_int_less_iff)
    then have "10 * S + 1 \<le> 27 * int L"
      by simp
    then have "rat_of_int (10 * S + 1) \<le> rat_of_int (27 * int L)"
      by (simp only: of_int_le_iff)
    then have "rat_of_int (10 * S + 1) / (10 * rat_of_nat L)
        \<le> rat_of_int (27 * int L) / (10 * rat_of_nat L)"
      using Lpos by (intro divide_right_mono) simp_all
    moreover have "rat_of_int (10 * S + 1) / (10 * rat_of_nat L) = mean + g"
      using Lpos by (simp add: mean_def g_def add_divide_distrib)
    moreover have "rat_of_int (27 * int L) / (10 * rat_of_nat L) = t"
      using Lpos by (simp add: t_def)
    ultimately show ?thesis
      by simp
  qed
  have above: "t + g \<le> mean" if lt: "t < mean"
  proof -
    from lt have "rat_of_int (27 * int L) < rat_of_int (10 * S)"
      using Lpos by (simp add: mean_def t_def field_simps)
    then have "27 * int L < 10 * S"
      by (simp only: of_int_less_iff)
    then have "27 * int L + 1 \<le> 10 * S"
      by simp
    then have "rat_of_int (27 * int L + 1) \<le> rat_of_int (10 * S)"
      by (simp only: of_int_le_iff)
    then have "rat_of_int (27 * int L + 1) / (10 * rat_of_nat L)
        \<le> rat_of_int (10 * S) / (10 * rat_of_nat L)"
      using Lpos by (intro divide_right_mono) simp_all
    moreover have "rat_of_int (27 * int L + 1) / (10 * rat_of_nat L) = t + g"
      using Lpos by (simp add: t_def g_def add_divide_distrib)
    moreover have "rat_of_int (10 * S) / (10 * rat_of_nat L) = mean"
      using Lpos by (simp add: mean_def)
    ultimately show ?thesis
      by simp
  qed
  have "binary64 t \<le> binary64 mean \<longleftrightarrow> t \<le> mean"
  proof (cases "mean = t")
    case True
    then show ?thesis by simp
  next
    case False
    then consider "mean < t" | "t < mean"
      by linarith
    then show ?thesis
    proof cases
      case 1
      from below [OF 1] te me gap have "binary64 mean < binary64 t"
        by linarith
      with 1 show ?thesis
        by simp
    next
      case 2
      from above [OF 2] te me gap have "binary64 t < binary64 mean"
        by linarith
      with 2 show ?thesis
        by simp
    qed
  qed
  then show ?thesis
    by (simp only: mean_def t_def)
qed

text \<open>The comparison with 2 decides as the exact one as well.\<close>

lemma threshold_2:
  fixes S :: int and L :: nat
  assumes L: "0 < L" "L < 2 ^ 32"
    and m: "1 \<le> rat_of_int S / of_nat L" "rat_of_int S / of_nat L \<le> 10"
  shows "2 \<le> binary64 (rat_of_int S / of_nat L) \<longleftrightarrow> 2 \<le> rat_of_int S / of_nat L"
proof -
  define mean where "mean = rat_of_int S / of_nat L"
  define eps :: rat where "eps = 10 / 2 ^ 53"
  define g :: rat where "g = 1 / rat_of_nat L"
  have Lpos: "0 < rat_of_nat L"
    using L(1) by simp
  have Lsmall: "rat_of_nat L < 2 ^ 32"
    using L(2) by (metis of_nat_less_iff of_nat_numeral of_nat_power)
  have gap: "eps < g"
  proof -
    have "eps * rat_of_nat L < eps * 2 ^ 32"
      using Lsmall by (intro mult_strict_left_mono) (simp_all add: eps_def)
    also have "\<dots> < 1"
      by (simp add: eps_def)
    finally show ?thesis
      using Lpos unfolding g_def by (simp only: pos_less_divide_eq)
  qed
  have m1: "1 \<le> mean" and m10: "mean \<le> 10"
    using m by (simp_all add: mean_def)
  have "\<bar>binary64 mean - mean\<bar> \<le> mean / 2 ^ 53"
    using m1 by (rule binary64_error)
  also have "\<dots> \<le> eps"
    using m10 unfolding eps_def by (intro divide_right_mono) simp_all
  finally have me: "\<bar>binary64 mean - mean\<bar> \<le> eps" .
  have "2 \<le> binary64 mean \<longleftrightarrow> 2 \<le> mean"
  proof
    assume "2 \<le> mean"
    then have "rat_of_int 2 \<le> mean"
      by simp
    from binary64_int_lower [OF m1 _ this] m10 show "2 \<le> binary64 mean"
      by simp
  next
    assume le: "2 \<le> binary64 mean"
    show "2 \<le> mean"
    proof (rule ccontr)
      assume "\<not> 2 \<le> mean"
      then have "rat_of_int S < rat_of_int (2 * int L)"
        using Lpos by (simp add: mean_def field_simps)
      then have "S < 2 * int L"
        by (simp only: of_int_less_iff)
      then have "S + 1 \<le> 2 * int L"
        by simp
      then have "rat_of_int (S + 1) \<le> rat_of_int (2 * int L)"
        by (simp only: of_int_le_iff)
      then have "rat_of_int (S + 1) / rat_of_nat L \<le> rat_of_int (2 * int L) / rat_of_nat L"
        using Lpos by (intro divide_right_mono) simp_all
      moreover have "rat_of_int (S + 1) / rat_of_nat L = mean + g"
        using Lpos by (simp add: mean_def g_def add_divide_distrib)
      moreover have "rat_of_int (2 * int L) / rat_of_nat L = 2"
        using Lpos by simp
      ultimately have "mean + g \<le> 2"
        by simp
      with me gap le show False
        by linarith
    qed
  qed
  then show ?thesis
    by (simp only: mean_def)
qed

lemma length_averageComprehension_scores:
  "length (averageComprehension_scores h s) \<le> length (allData s)"
proof -
  have "length (averageComprehension_scores h s) \<le> length (filteredData h s)"
    unfolding averageComprehension_scores_def
    by (rule order_trans [OF length_filter_le]) simp
  with length_filteredData [of h s] show ?thesis
    by simp
qed

lemma lookup_answers:
  "lookup comprehensionMap (Some answer_entendido) = Own 3"
  "lookup comprehensionMap (Some answer_mas_o_menos) = Own 2"
  "lookup comprehensionMap (Some answer_no_entendi) = Own 1"
  "lookup comprehensionMap (Some (str ''No lo s'' @ [233])) = Absent"
  by (simp_all add: lookup_def comprehensionMap_def answers_distinct)
    (simp add: answer_defs Object_prototype_def str_def)

lemma trim_other: "trim (str ''No lo s'' @ [233]) = str ''No lo s'' @ [233]"
  by (simp add: trim_def str_def isWhiteSpace_def)

lemma averageComprehension_scores_answered:
  "averageComprehension_scores h (answered cs)
   = filter truthy_weight (map (\<lambda>c. lookup comprehensionMap (Some (trim c))) cs)"
  by (simp add: averageComprehension_scores_def answered_def filteredData_loaded get_survey_row
      comp_def)

lemma length_answered: "length (allData (answered cs)) = length cs"
  by (simp add: answered_def loaded_def initial_def)

section \<open>Properties\<close>

subsection \<open>The filter engine\<close>

text \<open>
  C1. With an all-empty applied selection (start date, end date, category and subgroup all
  the empty string) the filter returns the loaded records unchanged and in the same order.
  This holds for every list of records, the non-empty ones in particular.
\<close>

theorem filteredData_empty_selection:
  "filteredData h
     (s\<lparr>appliedStartDate := [], appliedEndDate := [],
        appliedSelectedMateria := [], appliedSelectedParalelo := []\<rparr>) = allData s"
  by (simp add: filteredData_def Let_def)

subsection \<open>The report requester\<close>

text \<open>
  C7. Whatever the six report states were, \<open>applyFilters\<close> leaves the four insight
  summaries, the lesson plan and the student guide in the not-requested state: no content
  and not loading.
\<close>

theorem applyFilters_resets_reports:
  "learnings (applyFilters s) = \<lparr>loading = False, content = None\<rparr>
   \<and> confused (applyFilters s) = \<lparr>loading = False, content = None\<rparr>
   \<and> questions (applyFilters s) = \<lparr>loading = False, content = None\<rparr>
   \<and> suggestions (applyFilters s) = \<lparr>loading = False, content = None\<rparr>
   \<and> lessonPlan (applyFilters s) = \<lparr>loading = False, content = None\<rparr>
   \<and> studentGuide (applyFilters s) = \<lparr>loading = False, content = None\<rparr>"
  by (simp add: applyFilters_def resetAISummaries_def resetLessonPlan_def)

text \<open>
  C9. When the filtered record set is empty, \<open>generateSummary\<close> returns at once, for
  each of the four kinds: the component is unchanged (no signal is set to loading) and no
  request is issued.
\<close>

theorem generateSummary_no_data:
  assumes "filteredData h s = []"
  shows "generateSummary h t s = (s, None)"
  using assms by (simp add: generateSummary_def)

text \<open>
  One record of Fisica is loaded and the applied selection asks for Quimica: the filtered
  set is empty, and the request for the confusion summary changes nothing.
\<close>

theorem generateSummary_no_data_witness:
  "filteredData offline_host other_subject = []
   \<and> generateSummary offline_host Confused other_subject = (other_subject, None)"
proof -
  have h: "filteredData offline_host other_subject = []"
    by (simp add: other_subject_def filteredData_def loaded_def initial_def survey_row_def
        get_def str_def Let_def)
  from generateSummary_no_data [OF h] h show ?thesis
    by simp
qed

text \<open>
  C6, as the code has it. \<open>generateSummary\<close> returns at once on an empty filtered
  record set (C9), so the short circuit is a property of the non-empty ones: when the
  filtered record set is non-empty and every answer of the kind's column is missing, blank,
  a bare period or one of the tokens no, ninguna, ninguno, nada in any letter case, the
  kind's signal is set to the fixed content, not loading, and no request is issued.
\<close>

theorem generateSummary_short_circuit:
  assumes "filteredData h s \<noteq> []"
    and "\<forall>d \<in> set (filteredData h s). non_answer h (get d (fst (summary_case t)))"
  shows "generateSummary h t s =
           (signal_set (snd (snd (summary_case t)))
              \<lparr>loading = False, content = Some no_meaningful_responses\<rparr> s,
            None)"
proof -
  obtain k p g where c: "summary_case t = (k, p, g)"
    by (cases "summary_case t") auto
  from assms(2) c have "responses_of h k (filteredData h s) = []"
    by (simp add: responses_of_Nil)
  with assms(1) c show ?thesis
    by (simp add: generateSummary_def Let_def)
qed

text \<open>
  The answers no, a bare period and Nada, for each of the four kinds.
\<close>

theorem generateSummary_short_circuit_witness:
  "map (\<lambda>d. get d learningIndex) (filteredData offline_host three_non_answers)
     = [Some (str ''no''), Some (str ''.''), Some (str ''Nada'')]
   \<and> generateSummary offline_host Learnings three_non_answers
       = (three_non_answers
            \<lparr>learnings := \<lparr>loading = False, content = Some no_meaningful_responses\<rparr>\<rparr>, None)
   \<and> generateSummary offline_host Confused three_non_answers
       = (three_non_answers
            \<lparr>confused := \<lparr>loading = False, content = Some no_meaningful_responses\<rparr>\<rparr>, None)
   \<and> generateSummary offline_host Questions three_non_answers
       = (three_non_answers
            \<lparr>questions := \<lparr>loading = False, content = Some no_meaningful_responses\<rparr>\<rparr>, None)
   \<and> generateSummary offline_host Suggestions three_non_answers
       = (three_non_answers
            \<lparr>suggestions := \<lparr>loading = False, content = Some no_meaningful_responses\<rparr>\<rparr>, None)"
proof -
  have fd: "filteredData offline_host three_non_answers
              = [survey_row (str ''no'') [] [], survey_row (str ''.'') [] [],
                 survey_row (str ''Nada'') [] []]"
    by (simp add: three_non_answers_def filteredData_loaded)
  have ne: "filteredData offline_host three_non_answers \<noteq> []"
    by (simp add: fd)
  have na: "\<forall>d \<in> set (filteredData offline_host three_non_answers).
              non_answer offline_host (get d (fst (summary_case t)))" for t
    by (cases t) (simp_all add: fd get_survey_row non_answer_examples)
  show ?thesis
    using generateSummary_short_circuit [OF ne na, of Learnings]
      generateSummary_short_circuit [OF ne na, of Confused]
      generateSummary_short_circuit [OF ne na, of Questions]
      generateSummary_short_circuit [OF ne na, of Suggestions]
    by (simp add: fd get_survey_row)
qed

text \<open>
  C6 as stated fails on the empty record set: no response remains there, and the signal
  keeps its state instead of taking the fixed content.
\<close>

theorem generateSummary_short_circuit_counterexample:
  "responses_of offline_host learningIndex (filteredData offline_host initial) = []
   \<and> content (learnings (fst (generateSummary offline_host Learnings initial)))
       \<noteq> Some no_meaningful_responses"
  by (simp add: filteredData_def generateSummary_def responses_of_def initial_def
      createSummarySignal_def Let_def)

text \<open>
  When a response remains, the request is issued and the kind's signal is loading.
\<close>

lemma generateSummary_requests:
  assumes "responses_of h (fst (summary_case t)) (filteredData h s) \<noteq> []"
  shows "snd (generateSummary h t s) \<noteq> None
         \<and> fst (generateSummary h t s)
             = signal_set (snd (snd (summary_case t))) \<lparr>loading = True, content = None\<rparr> s"
proof -
  obtain k p g where c: "summary_case t = (k, p, g)"
    by (cases "summary_case t") auto
  from assms c have "filteredData h s \<noteq> []"
    by (auto simp add: responses_of_def)
  with assms c show ?thesis
    by (simp add: generateSummary_def Let_def callGemini_def)
qed

text \<open>
  C8, as the code has it. The validation of \<open>generateLessonPlan\<close> tests the five
  mandatory inputs (next topic, number of students, class duration, subject outcome, unit
  outcome) with \<open>!field\<close>, and has one message. When one of the five is the empty
  string, the modal error message is set to the fixed text that asks for all the required
  fields, whichever input is missing, and the function returns: no request is issued, and
  no other signal changes, the lesson plan's included.
\<close>

theorem generateLessonPlan_validation:
  assumes "modalNextTopic s = [] \<or> modalNumStudents s = [] \<or> modalClassDuration s = []
           \<or> modalMateriaOutcome s = [] \<or> modalUnitOutcome s = []"
  shows "generateLessonPlan s = (s\<lparr>modalErrorMessage := Some msg_required_fields\<rparr>, None)
         \<and> lessonPlan (fst (generateLessonPlan s)) = lessonPlan s"
  using assms by (auto simp add: generateLessonPlan_def Let_def)

text \<open>The form with every mandatory input but the unit outcome.\<close>

theorem generateLessonPlan_validation_witness:
  "modalUnitOutcome plan_form_without_unit = []
   \<and> generateLessonPlan plan_form_without_unit
       = (plan_form_without_unit\<lparr>modalErrorMessage := Some msg_required_fields\<rparr>, None)"
proof -
  have h: "modalUnitOutcome plan_form_without_unit = []"
    by (simp add: plan_form_without_unit_def initial_def)
  then have "modalNextTopic plan_form_without_unit = []
      \<or> modalNumStudents plan_form_without_unit = []
      \<or> modalClassDuration plan_form_without_unit = []
      \<or> modalMateriaOutcome plan_form_without_unit = []
      \<or> modalUnitOutcome plan_form_without_unit = []"
    by simp
  from generateLessonPlan_validation [OF this] h show ?thesis
    by simp
qed

text \<open>
  C8 as stated fails twice. The message does not list the missing requirement: it is the
  same text when the unit outcome is missing and when the next topic is. And an input that
  is blank without being empty is not rejected: with five inputs of white space only, each
  of which trims to the empty string, no error is set, the request is issued and the lesson
  plan is loading.
\<close>

theorem generateLessonPlan_validation_counterexample:
  "modalUnitOutcome plan_form_without_unit = []
   \<and> modalNextTopic plan_form_without_unit \<noteq> []
   \<and> modalNextTopic plan_form_without_topic = []
   \<and> modalUnitOutcome plan_form_without_topic \<noteq> []
   \<and> modalErrorMessage (fst (generateLessonPlan plan_form_without_unit))
       = modalErrorMessage (fst (generateLessonPlan plan_form_without_topic))
   \<and> map trim
         [modalNextTopic plan_form_of_spaces, modalNumStudents plan_form_of_spaces,
          modalClassDuration plan_form_of_spaces, modalMateriaOutcome plan_form_of_spaces,
          modalUnitOutcome plan_form_of_spaces]
       = [[], [], [], [], []]
   \<and> modalErrorMessage (fst (generateLessonPlan plan_form_of_spaces)) = None
   \<and> snd (generateLessonPlan plan_form_of_spaces) \<noteq> None
   \<and> lessonPlan (fst (generateLessonPlan plan_form_of_spaces))
       = \<lparr>loading = True, content = None\<rparr>
   \<and> lessonPlan plan_form_of_spaces = \<lparr>loading = False, content = None\<rparr>"
proof -
  have forms: "modalUnitOutcome plan_form_without_unit = []"
    "modalNextTopic plan_form_without_unit \<noteq> []"
    "modalNextTopic plan_form_without_topic = []"
    "modalUnitOutcome plan_form_without_topic \<noteq> []"
    by (simp_all add: plan_form_without_unit_def plan_form_without_topic_def initial_def
        str_def)
  have same: "modalErrorMessage (fst (generateLessonPlan plan_form_without_unit))
      = modalErrorMessage (fst (generateLessonPlan plan_form_without_topic))"
    using forms by (simp add: generateLessonPlan_def Let_def)
  have spaces: "modalNextTopic plan_form_of_spaces = str ''  ''"
    "modalNumStudents plan_form_of_spaces = str '' ''"
    "modalClassDuration plan_form_of_spaces = str '' ''"
    "modalMateriaOutcome plan_form_of_spaces = str '' ''"
    "modalUnitOutcome plan_form_of_spaces = str '' ''"
    "lessonPlan plan_form_of_spaces = \<lparr>loading = False, content = None\<rparr>"
    by (simp_all add: plan_form_of_spaces_def initial_def createSummarySignal_def)
  have trims: "trim (str ''  '') = []" "trim (str '' '') = []"
    by (simp_all add: trim_def isWhiteSpace_def str_def)
  have filled: "str ''  '' \<noteq> []" "str '' '' \<noteq> []"
    by (simp_all add: str_def)
  have run: "modalErrorMessage (fst (generateLessonPlan plan_form_of_spaces)) = None"
    "snd (generateLessonPlan plan_form_of_spaces) \<noteq> None"
    "lessonPlan (fst (generateLessonPlan plan_form_of_spaces))
       = \<lparr>loading = True, content = None\<rparr>"
    by (simp_all add: generateLessonPlan_def Let_def callGemini_def spaces filled)
  from forms same run show ?thesis
    by (simp add: spaces trims)
qed

text \<open>With the five inputs filled in, the plan is requested.\<close>

lemma generateLessonPlan_submits:
  assumes "modalNextTopic s \<noteq> []" "modalNumStudents s \<noteq> []" "modalClassDuration s \<noteq> []"
    "modalMateriaOutcome s \<noteq> []" "modalUnitOutcome s \<noteq> []"
  shows "snd (generateLessonPlan s) \<noteq> None
         \<and> lessonPlan (fst (generateLessonPlan s)) = \<lparr>loading = True, content = None\<rparr>"
  using assms by (simp add: generateLessonPlan_def Let_def callGemini_def)

subsection \<open>The row importer\<close>

text \<open>
  C2, as the code has it. An import fails with \<open>InvalidUrl\<close> when the URL is not empty
  and has no \<open>/d/\<close> followed by an identifier character, and with
  \<open>SchemaMismatch\<close> when the sheet was fetched and parsed without errors, has a row,
  and its first row lacks a required header. Whatever the error, \<open>loadData\<close> then
  stores the error's message, and replaces the record set by the empty one: the records
  loaded before are discarded.
\<close>

theorem loadData_failure:
  "(url \<noteq> [] \<and> \<not> (\<exists>pre c post. url = pre @ str ''/d/'' @ c # post \<and> isSheetIdChar c)
      \<longrightarrow> loadDataFromSheet h url = Inl InvalidUrl)
   \<and> (match_after (str ''/d/'') isSheetIdChar url = Some sheetId
        \<and> http_get h (csvUrl url sheetId) = Inr csvData
        \<and> Papa_parse h csvData = Inr results
        \<and> results_errors results = [] \<and> results_data results \<noteq> []
        \<and> (\<exists>header \<in> set requiredHeaders. header \<notin> fst ` set (hd (results_data results)))
      \<longrightarrow> loadDataFromSheet h url = Inl SchemaMismatch)
   \<and> (loadDataFromSheet h (sheetUrl s) = Inl e
      \<longrightarrow> loadData h s
          = s\<lparr>isLoading := False, errorMessage := Some (error_message e),
              dataLoaded := False, allData := []\<rparr>)"
proof (intro conjI impI)
  assume "url \<noteq> [] \<and> \<not> (\<exists>pre c post. url = pre @ str ''/d/'' @ c # post \<and> isSheetIdChar c)"
  then have "url \<noteq> []" and "match_after (str ''/d/'') isSheetIdChar url = None"
    unfolding match_after_None_iff by blast+
  then show "loadDataFromSheet h url = Inl InvalidUrl"
    by (simp add: loadDataFromSheet_def)
next
  assume a: "match_after (str ''/d/'') isSheetIdChar url = Some sheetId
        \<and> http_get h (csvUrl url sheetId) = Inr csvData
        \<and> Papa_parse h csvData = Inr results
        \<and> results_errors results = [] \<and> results_data results \<noteq> []
        \<and> (\<exists>header \<in> set requiredHeaders. header \<notin> fst ` set (hd (results_data results)))"
  then have "url \<noteq> []"
    by auto
  moreover from a have "\<not> list_all (\<lambda>header. header \<in> set (map fst (hd (results_data results))))
      requiredHeaders"
    by (auto simp add: list_all_iff)
  ultimately show "loadDataFromSheet h url = Inl SchemaMismatch"
    using a by (simp add: loadDataFromSheet_def Let_def)
next
  assume "loadDataFromSheet h (sheetUrl s) = Inl e"
  then show "loadData h s
          = s\<lparr>isLoading := False, errorMessage := Some (error_message e),
              dataLoaded := False, allData := []\<rparr>"
    by (simp add: loadData_def Let_def)
qed

text \<open>
  A URL without the sharing-link shape, and a sheet whose header row lacks the satisfaction
  score, each submitted while one record is loaded.
\<close>

theorem loadData_failure_witness:
  "loadDataFromSheet offline_host (sheetUrl (reloading (str ''https://example.org/sheet'')))
     = Inl InvalidUrl
   \<and> loadData offline_host (reloading (str ''https://example.org/sheet''))
       = (reloading (str ''https://example.org/sheet''))
           \<lparr>isLoading := False, errorMessage := Some msg_invalid_url,
            dataLoaded := False, allData := []\<rparr>
   \<and> loadDataFromSheet sheet_host (sheetUrl (reloading shared_url)) = Inl SchemaMismatch
   \<and> loadData sheet_host (reloading shared_url)
       = (reloading shared_url)
           \<lparr>isLoading := False, errorMessage := Some msg_schema_mismatch,
            dataLoaded := False, allData := []\<rparr>"
proof -
  let ?bad = "str ''https://example.org/sheet''"
  have u: "sheetUrl (reloading url) = url" for url
    by (simp add: reloading_def loaded_def initial_def)
  have b: "?bad \<noteq> [] \<and> \<not> (\<exists>pre c post. ?bad = pre @ str ''/d/'' @ c # post \<and> isSheetIdChar c)"
    using no_sheet_id unfolding match_after_None_iff by (simp add: str_def)
  have i: "loadDataFromSheet offline_host ?bad = Inl InvalidUrl"
    using loadData_failure [of ?bad offline_host] b by blast
  have m: "match_after (str ''/d/'') isSheetIdChar shared_url = Some (str ''1AbC-9_z'')
        \<and> http_get sheet_host (csvUrl shared_url (str ''1AbC-9_z''))
            = Inr (str ''Timestamp,Email Address'')
        \<and> Papa_parse sheet_host (str ''Timestamp,Email Address'')
            = Inr \<lparr>results_data = [sheet_without_score], results_errors = []\<rparr>
        \<and> results_errors \<lparr>results_data = [sheet_without_score], results_errors = []\<rparr> = []
        \<and> results_data \<lparr>results_data = [sheet_without_score], results_errors = []\<rparr> \<noteq> []
        \<and> (\<exists>header \<in> set requiredHeaders. header
              \<notin> fst ` set (hd (results_data
                    \<lparr>results_data = [sheet_without_score], results_errors = []\<rparr>)))"
    using sheet_id missing_header by (auto simp add: sheet_host_def offline_host_def)
  have j: "loadDataFromSheet sheet_host shared_url = Inl SchemaMismatch"
    using loadData_failure [of shared_url sheet_host "str ''1AbC-9_z''"] m by blast
  show ?thesis
    using i j
      loadData_failure [of ?bad offline_host _ _ _ "reloading ?bad" InvalidUrl]
      loadData_failure [of shared_url sheet_host _ _ _ "reloading shared_url" SchemaMismatch]
    by (simp add: u)
qed

text \<open>
  C2 as stated fails: after either failure the record that was loaded is gone.
\<close>

theorem loadData_failure_counterexample:
  "loadDataFromSheet offline_host (sheetUrl (reloading (str ''https://example.org/sheet'')))
     = Inl InvalidUrl
   \<and> allData (reloading (str ''https://example.org/sheet''))
       = [survey_row (str ''Vectores'') [] (str ''8'')]
   \<and> allData (loadData offline_host (reloading (str ''https://example.org/sheet''))) = []
   \<and> loadDataFromSheet sheet_host (sheetUrl (reloading shared_url)) = Inl SchemaMismatch
   \<and> allData (reloading shared_url) = [survey_row (str ''Vectores'') [] (str ''8'')]
   \<and> allData (loadData sheet_host (reloading shared_url)) = []"
proof -
  have u: "sheetUrl (reloading url) = url" for url
    by (simp add: reloading_def loaded_def initial_def)
  have i: "loadDataFromSheet offline_host (str ''https://example.org/sheet'') = Inl InvalidUrl"
    using no_sheet_id by (simp add: loadDataFromSheet_def str_def)
  have h: "list_all (\<lambda>header. header \<in> set (map fst sheet_without_score)) requiredHeaders = False"
    using missing_header by (auto simp add: list_all_iff)
  have j: "loadDataFromSheet sheet_host shared_url = Inl SchemaMismatch"
    using sheet_id h
    by (simp add: loadDataFromSheet_def sheet_host_def offline_host_def shared_url_def str_def Let_def)
  show ?thesis
    using i j by (simp add: u loadData_def Let_def) (simp add: reloading_def loaded_def initial_def)
qed

subsection \<open>The aggregator\<close>

text \<open>
  C3. The scores of the mean are exactly the score fields of the filtered records that
  \<open>parseInt\<close> reads as an integer from 1 to 10, in their order. When there is none the
  result is the marker N/A. Otherwise, for any array the browser can hold (fewer than
  \<open>2 ^ 32\<close> records), the result prints, with two decimals, a hundredth nearest to the
  exact mean of these scores: the sum and the quotient are computed in binary64, and the
  rounding of the quotient does not move the result to another hundredth.
\<close>

theorem averageScore_spec:
  "map Some (averageScore_scores h s)
     = filter (\<lambda>v. \<exists>n. v = Some n \<and> 1 \<le> n \<and> n \<le> 10)
         (map (\<lambda>d. parseInt (get d scoreIndex)) (filteredData h s))
   \<and> (averageScore_scores h s = [] \<longrightarrow> averageScore h s = str ''N/A'')
   \<and> (averageScore_scores h s \<noteq> [] \<and> length (allData s) < 2 ^ 32
        \<longrightarrow> (\<exists>n. averageScore h s = hundredths n
               \<and> \<bar>rat_of_nat n
                   - 100 * (rat_of_int (sum_list (averageScore_scores h s))
                            / of_nat (length (averageScore_scores h s)))\<bar> \<le> 1 / 2))"
  using averageScore_scores_Some [of h s] averageScore_NA_iff [of h s]
    averageScore_rounded [of h s]
  by blast

text \<open>
  The scores 0, 1, 10, 11, 7: the included scores are 1, 10, 7 and the mean is 6.00.
\<close>

theorem averageScore_spec_witness:
  "map (\<lambda>d. get d scoreIndex) (filteredData offline_host five_scores)
     = [Some (str ''0''), Some (str ''1''), Some (str ''10''), Some (str ''11''), Some (str ''7'')]
   \<and> averageScore_scores offline_host five_scores = [1, 10, 7]
   \<and> averageScore offline_host five_scores = str ''6.00''"
proof -
  have fd: "filteredData offline_host five_scores
      = [survey_row [] [] (str ''0''), survey_row [] [] (str ''1''),
         survey_row [] [] (str ''10''), survey_row [] [] (str ''11''),
         survey_row [] [] (str ''7'')]"
    by (simp add: five_scores_def filteredData_loaded)
  have len: "length (allData five_scores) < 2 ^ 32"
    by (simp add: five_scores_def loaded_def initial_def)
  note spec = averageScore_spec [of offline_host five_scores]
  from spec have "map Some (averageScore_scores offline_host five_scores)
      = [Some 1, Some 10, Some 7]"
    by (simp add: fd get_survey_row parseInt_examples)
  then have sc: "averageScore_scores offline_host five_scores = [1, 10, 7]"
    by (auto simp add: map_eq_Cons_conv)
  with spec len obtain n where n: "averageScore offline_host five_scores = hundredths n"
    and "\<bar>rat_of_nat n - 100 * (rat_of_int (sum_list [1, 10, 7]) / of_nat (length [1, 10, 7 :: int]))\<bar> \<le> 1 / 2"
    by auto
  then have "\<bar>rat_of_nat n - rat_of_nat 600\<bar> \<le> 1 / 2"
    by simp
  then have "n = 600"
    by (rule nearest_nat)
  with n sc show ?thesis
    by (simp add: fd get_survey_row hundredths_examples)
qed

text \<open>
  C10. A mean score that is reported, for fewer than \<open>2 ^ 32\<close> records, prints
  \<open>n / 100\<close> for some \<open>n\<close> from 100 to 1000: a value from 1.00 to 10.00.
\<close>

theorem averageScore_range:
  assumes "length (allData s) < 2 ^ 32" and "averageScore h s \<noteq> str ''N/A''"
  shows "\<exists>n. 100 \<le> n \<and> n \<le> 1000 \<and> averageScore h s = hundredths n"
proof -
  from assms(2) have "averageScore_scores h s \<noteq> []"
    by (simp add: averageScore_NA_iff)
  from averageScore_rounded [OF this assms(1)] show ?thesis
    by blast
qed

text \<open>The scores 10 and 9.\<close>

theorem averageScore_range_witness:
  "length (allData two_scores) < 2 ^ 32
   \<and> averageScore_scores offline_host two_scores = [10, 9]
   \<and> (\<exists>n. 100 \<le> n \<and> n \<le> 1000 \<and> averageScore offline_host two_scores = hundredths n)"
proof -
  have len: "length (allData two_scores) < 2 ^ 32"
    by (simp add: two_scores_def loaded_def initial_def)
  have sc: "averageScore_scores offline_host two_scores = [10, 9]"
    by (simp add: averageScore_scores_def two_scores_def filteredData_loaded get_survey_row
        parseInt_examples)
  then have "averageScore offline_host two_scores \<noteq> str ''N/A''"
    by (simp add: averageScore_NA_iff)
  from averageScore_range [OF len this] len sc show ?thesis
    by simp
qed

text \<open>
  C5. The priority list is the filtered records whose score \<open>parseInt\<close> reads as an
  integer of at most 7, or whose trimmed comprehension answer has the lowest weight of
  \<open>comprehensionMap\<close>, each mapped to its entry, in order. These two conditions are the
  flags \<open>lowScore\<close> and \<open>lowComprehension\<close> of the code. The entry of a flagged
  record has a non-empty reason, and its badge has rank 3 with both flags, rank 2 with the
  comprehension flag only and rank 1 with the score flag only.
\<close>

theorem priorityStudents_spec:
  "priorityStudents h s
     = map (priorityStudent h)
         (filter (\<lambda>d. (\<exists>n. parseInt (get d scoreIndex) = Some n \<and> n \<le> 7)
                       \<or> lookup comprehensionMap (map_option trim (get d comprehensionIndex))
                           = Own 1)
            (filteredData h s))
   \<and> (lowScore d \<longleftrightarrow> (\<exists>n. parseInt (get d scoreIndex) = Some n \<and> n \<le> 7))
   \<and> (lowComprehension d
        \<longleftrightarrow> lookup comprehensionMap (map_option trim (get d comprehensionIndex)) = Own 1)
   \<and> (lowScore d \<or> lowComprehension d
        \<longrightarrow> razon (priorityStudent h d) \<noteq> []
            \<and> severity (badgeColor (priorityStudent h d))
                = (if lowComprehension d \<and> lowScore d then 3
                   else if lowComprehension d then 2 else 1))"
proof (intro conjI impI)
  show "priorityStudents h s
     = map (priorityStudent h)
         (filter (\<lambda>d. (\<exists>n. parseInt (get d scoreIndex) = Some n \<and> n \<le> 7)
                       \<or> lookup comprehensionMap (map_option trim (get d comprehensionIndex))
                           = Own 1)
            (filteredData h s))"
    by (simp add: priorityStudents_def lowScore_iff lowComprehension_iff)
  show "lowScore d \<longleftrightarrow> (\<exists>n. parseInt (get d scoreIndex) = Some n \<and> n \<le> 7)"
    by (rule lowScore_iff)
  show "lowComprehension d
        \<longleftrightarrow> lookup comprehensionMap (map_option trim (get d comprehensionIndex)) = Own 1"
    by (rule lowComprehension_iff)
next
  assume "lowScore d \<or> lowComprehension d"
  then show "razon (priorityStudent h d) \<noteq> []"
    by (auto simp add: priorityStudent_def Let_def razon_prefixes)
next
  assume "lowScore d \<or> lowComprehension d"
  then show "severity (badgeColor (priorityStudent h d))
                = (if lowComprehension d \<and> lowScore d then 3
                   else if lowComprehension d then 2 else 1)"
    by (auto simp add: priorityStudent_def Let_def badges)
qed

text \<open>
  A score of 5 with the highest comprehension is flagged for the score only, a score of 9
  with the lowest comprehension for the comprehension only, a score of 5 with the lowest
  comprehension for both; a score of 9 with the highest comprehension is not listed.
\<close>

theorem priorityStudents_spec_witness:
  "map (\<lambda>p. (razon p, severity (badgeColor p))) (priorityStudents offline_host four_students)
     = [(razon_score_1 @ str ''5'' @ razon_score_2, 1),
        (razon_comprehension_1 @ str ''Perdido/a'', 2),
        (razon_both_1 @ str ''5'' @ razon_both_2, 3)]"
proof -
  let ?score_only = "survey_row [] answer_entendido (str ''5'')"
  let ?comprehension_only = "survey_row [] answer_no_entendi (str ''9'')"
  let ?both = "survey_row [] answer_no_entendi (str ''5'')"
  let ?neither = "survey_row [] answer_entendido (str ''9'')"
  have fd: "filteredData offline_host four_students
      = [?score_only, ?comprehension_only, ?both, ?neither]"
    by (simp add: four_students_def filteredData_loaded)
  have "priorityStudents offline_host four_students
      = map (priorityStudent offline_host) [?score_only, ?comprehension_only, ?both]"
    using priorityStudents_spec [of offline_host four_students ?neither]
    by (simp add: fd lowScore_iff [symmetric] lowComprehension_iff [symmetric] flags_examples)
  moreover have "severity (badgeColor (priorityStudent offline_host ?score_only)) = 1"
    using priorityStudents_spec [of offline_host four_students ?score_only] flags_examples
    by simp
  moreover have "severity (badgeColor (priorityStudent offline_host ?comprehension_only)) = 2"
    using priorityStudents_spec [of offline_host four_students ?comprehension_only]
      flags_examples
    by simp
  moreover have "severity (badgeColor (priorityStudent offline_host ?both)) = 3"
    using priorityStudents_spec [of offline_host four_students ?both] flags_examples
    by simp
  ultimately show ?thesis
    by (simp add: razon_examples)
qed

text \<open>
  C4 fails on an answer that names a member of \<open>Object.prototype\<close>. The word
  constructor is no key of \<open>comprehensionMap\<close>, yet the lookup finds the inherited
  member, \<open>filter(Boolean)\<close> keeps it, the sum becomes a string and the average NaN:
  the level shown is the lowest one, where no answer maps and N/A is due.
\<close>

theorem averageComprehension_inherited_key:
  "map (\<lambda>d. get d comprehensionIndex) (filteredData offline_host inherited_answer)
     = [Some (str ''constructor'')]
   \<and> averageComprehension_scores offline_host inherited_answer = [Inherited]
   \<and> averageComprehension offline_host inherited_answer = label_baja
   \<and> label_baja \<noteq> str ''N/A''"
proof -
  have sc: "averageComprehension_scores offline_host inherited_answer = [Inherited]"
    by (simp add: averageComprehension_scores_def inherited_answer_def filteredData_loaded
        get_survey_row trim_constructor lookup_constructor)
  then show ?thesis
    by (simp add: averageComprehension_def labels_not_NA)
      (simp add: inherited_answer_def filteredData_loaded get_survey_row)
qed

text \<open>
  Apart from such answers the code computes the level of the specification: when no
  looked-up value is inherited, and for fewer than \<open>2 ^ 32\<close> records, the label is
  the bucket of the exact average of the weights of the answers that map. The sum and the
  quotient are computed in binary64, and so is the literal 2.7; the comparisons decide as
  the exact ones.
\<close>

lemma averageComprehension_buckets:
  assumes own: "Inherited \<notin> set (averageComprehension_scores h s)"
    and len: "length (allData s) < 2 ^ 32"
  shows "averageComprehension h s
         = comprehension_level (own_weights (averageComprehension_scores h s))"
proof (cases "averageComprehension_scores h s = []")
  case True
  then show ?thesis
    by (simp add: averageComprehension_def comprehension_level_def)
next
  case False
  let ?ps = "averageComprehension_scores h s"
  have "\<forall>p \<in> set ?ps. p = Own 1 \<or> p = Own 2 \<or> p = Own 3"
    using averageComprehension_scores_cases [of _ h s] own by metis
  from weights_own [OF this] obtain xs where xs: "weights ?ps = Some (map rat_of_int xs)"
      "own_weights ?ps = map rat_of_int xs" "length xs = length ?ps"
      "\<forall>n \<in> set xs. 1 \<le> n \<and> n \<le> 10"
    by blast
  from False xs(3) have ne: "xs \<noteq> []"
    by auto
  from xs(3) length_averageComprehension_scores [of h s] len have l: "length xs < 2 ^ 32"
    by simp
  define mean where "mean = rat_of_int (sum_list xs) / of_nat (length xs)"
  note m = mean_computed [OF xs(4) ne l, folded mean_def]
  have pos: "0 < length xs"
    using ne by simp
  have t27: "binary64 (27 / 10) \<le> binary64 mean \<longleftrightarrow> 27 / 10 \<le> mean"
    unfolding mean_def by (rule threshold_27 [OF pos l]) (use m(2,3) in \<open>simp_all add: mean_def\<close>)
  have t2: "2 \<le> binary64 mean \<longleftrightarrow> 2 \<le> mean"
    unfolding mean_def by (rule threshold_2 [OF pos l]) (use m(2,3) in \<open>simp_all add: mean_def\<close>)
  have sum: "sum_list (map rat_of_int xs) = rat_of_int (sum_list xs)"
    by (induction xs) simp_all
  have code: "averageComprehension h s
      = (if binary64 (27 / 10) \<le> binary64 mean then label_excelente
         else if 2 \<le> binary64 mean then label_buena
         else if 1 \<le> binary64 mean then label_media else label_baja)"
    using False by (simp add: averageComprehension_def Let_def xs(1) m(1) xs(3) [symmetric]
        mean_def [symmetric])
  have spec: "comprehension_level (own_weights ?ps)
      = (if 27 / 10 \<le> mean then label_excelente
         else if 2 \<le> mean then label_buena
         else if 1 \<le> mean then label_media else label_baja)"
    using ne by (simp add: comprehension_level_def Let_def xs(2) sum mean_def [symmetric])
  show ?thesis
    unfolding code spec using t27 t2 m(2,4) by simp
qed

text \<open>
  The weights 3, 3, 2 give the label of the second bucket; an average of exactly 2.7 (seven
  answers of weight 3 and three of weight 2) the first; exactly 2.0 the second; exactly 1.0
  the third; an answer that is no key and no inherited member gives N/A.
\<close>

lemma averageComprehension_examples:
  "averageComprehension h (answered [answer_entendido, answer_entendido, answer_mas_o_menos])
     = label_buena"
  "averageComprehension h
     (answered [answer_entendido, answer_entendido, answer_entendido, answer_entendido,
                answer_entendido, answer_entendido, answer_entendido,
                answer_mas_o_menos, answer_mas_o_menos, answer_mas_o_menos])
     = label_excelente"
  "averageComprehension h (answered [answer_mas_o_menos]) = label_buena"
  "averageComprehension h (answered [answer_no_entendi]) = label_media"
  "averageComprehension h (answered [str ''No lo s'' @ [233]]) = str ''N/A''"
  by (subst averageComprehension_buckets;
      simp add: averageComprehension_scores_answered length_answered trim_answers trim_other
        lookup_answers comprehension_level_def)+

end
